theory Spec2Isabelle
  imports Complex_Main "HOL-Library.AList"
begin

section \<open>The design-token document\<close>

text \<open>
  The scripts work on the parsed JSON export: a document holds collections, a collection
  holds modes and variables, a variable holds one value per mode id. A value is either a
  direct colour \<open>{r, g, b, a}\<close>, an alias \<open>{type: "VARIABLE_ALIAS", id: ...}\<close>, or any
  other JSON value; of the last kind the code only ever observes its truthiness
  (\<open>not value\<close>) and the text of \<open>type(value)\<close>, so these two are what the third
  constructor carries. The four numbers of \<open>Color\<close> are \<open>r\<close>, \<open>g\<close>, \<open>b\<close>, \<open>a\<close> in this
  order, the string of \<open>VariableAlias\<close> is the \<open>id\<close>. A stored float is the real number
  it denotes; where the code computes with floats, in \<open>oklch_to_rgb\<close>, every operation
  is rounded (section \<open>Python floats\<close>). A Python \<open>dict\<close> is an association list in
  insertion order: \<open>d.get(k)\<close> is \<open>map_of d k\<close> and \<open>d[k] = v\<close> is
  \<open>AList.update k v d\<close> (overwrite in place, or append a new key at the end).
\<close>

datatype mode_value =
    Color real real real real
  | VariableAlias string
  | OtherValue bool string

record mode =
  modeId :: string
  m_name :: string

record variable =
  v_id :: string
  v_name :: string
  resolvedType :: string
  valuesByMode :: "(string \<times> mode_value) list"

record collection =
  c_id :: string
  c_name :: string
  modes :: "mode list"
  variables :: "variable list"

record document =
  collections :: "collection list"

section \<open>String helpers (Python \<open>in\<close>, \<open>split\<close>, \<open>join\<close>, \<open>startswith\<close>)\<close>

definition startswith :: "string \<Rightarrow> string \<Rightarrow> bool" where
  "startswith s p = (take (length p) s = p)"

text \<open>\<open>sub in s\<close> for two strings: \<open>sub\<close> occurs in \<open>s\<close> as a contiguous run.\<close>

fun str_contains :: "string \<Rightarrow> string \<Rightarrow> bool" where
  "str_contains sub [] = (sub = [])"
| "str_contains sub (c # cs) = (startswith (c # cs) sub \<or> str_contains sub cs)"

text \<open>\<open>s.split(sep)\<close> for a one-character separator: empty pieces are kept.\<close>

fun split_on :: "char \<Rightarrow> string \<Rightarrow> string list" where
  "split_on sep [] = [[]]"
| "split_on sep (c # cs) =
     (if c = sep then [] # split_on sep cs
      else (case split_on sep cs of
              [] \<Rightarrow> [[c]]
            | w # ws \<Rightarrow> (c # w) # ws))"

fun join :: "string \<Rightarrow> string list \<Rightarrow> string" where
  "join sep [] = []"
| "join sep [x] = x"
| "join sep (x # y # ys) = x @ sep @ join sep (y # ys)"

section \<open>validate\_figma\_aliases.py: the alias validator\<close>

text \<open>
  \<open>AliasValidator._build_lookups\<close>: both tables are filled in document order, a later
  entry with the same id overwriting the earlier one.
\<close>

definition build_lookups ::
  "document \<Rightarrow> (string \<times> variable) list \<times> (string \<times> collection) list" where
  "build_lookups data =
     fold (\<lambda>collection (variables_by_id, collections_by_id).
             (fold (\<lambda>variable idx. AList.update (v_id variable) variable idx)
                   (variables collection) variables_by_id,
              AList.update (c_id collection) collection collections_by_id))
          (collections data) ([], [])"

definition variables_by_id :: "document \<Rightarrow> (string \<times> variable) list" where
  "variables_by_id data = fst (build_lookups data)"

text \<open>
  \<open>AliasValidator.resolve_alias_chain\<close>. The result is the triple
  \<open>(success, final_value, chain_path)\<close>. The Python set \<open>visited\<close> is one mutable object
  handed down the chain; nothing reads it after the single recursive call returns, so
  passing the enlarged set down is the same computation. The order of the source is
  kept: membership in \<open>visited\<close> first, then \<open>visited.add\<close>, then the lookup.
\<close>

lemma card_unvisited_less:
  assumes "map_of idx k = Some v" and "k \<notin> visited"
  shows "card (fst ` set idx - insert k visited) < card (fst ` set idx - visited)"
proof -
  from assms(1) have "k \<in> fst ` set idx"
    by (metis map_of_SomeD fst_conv image_eqI)
  with assms(2) have "k \<in> fst ` set idx - visited" by simp
  moreover have "fst ` set idx - insert k visited = (fst ` set idx - visited) - {k}"
    by auto
  moreover have "finite (fst ` set idx - visited)" by simp
  ultimately show ?thesis by (metis card_Diff1_less)
qed

function resolve_alias_chain ::
  "(string \<times> variable) list \<Rightarrow> string \<Rightarrow> string \<Rightarrow> string set
     \<Rightarrow> bool \<times> mode_value option \<times> string list" where
  "resolve_alias_chain idx variable_id mode_id visited =
     (if variable_id \<in> visited then (False, None, [''CIRCULAR: '' @ variable_id])
      else
        (let visited' = insert variable_id visited in
         case map_of idx variable_id of
           None \<Rightarrow> (False, None, [''NOT_FOUND: '' @ variable_id])
         | Some variable \<Rightarrow>
             (let chain_path = [v_name variable] in
              case map_of (valuesByMode variable) mode_id of
                None \<Rightarrow> (False, None, chain_path @ [''NO_VALUE_FOR_MODE: '' @ mode_id])
              | Some (OtherValue t ty) \<Rightarrow>
                  if \<not> t then (False, None, chain_path @ [''NO_VALUE_FOR_MODE: '' @ mode_id])
                  else (False, None, chain_path @ [''UNKNOWN_VALUE_TYPE: '' @ ty])
              | Some (Color cr cg cb ca) \<Rightarrow> (True, Some (Color cr cg cb ca), chain_path)
              | Some (VariableAlias target) \<Rightarrow>
                  if CHR ''/'' \<in> set target
                  then (False, None, chain_path @ [''EXTERNAL_REF: '' @ target])
                  else
                    (case resolve_alias_chain idx target mode_id visited' of
                       (success, final_value, sub_chain) \<Rightarrow>
                         (success, final_value, chain_path @ sub_chain)))))"
  by pat_completeness auto
termination
  by (relation "measure (\<lambda>(idx, variable_id, mode_id, visited). card (fst ` set idx - visited))")
     (auto simp: card_unvisited_less)

text \<open>
  The call stack. Every call of \<open>resolve_alias_chain\<close> takes one frame of the interpreter's
  stack, and a call for which no frame is left raises \<open>RecursionError\<close>; the limit is 1000
  frames for the whole program unless \<open>sys.setrecursionlimit\<close> changes it, which no script
  here does, and nothing in the validator catches the exception.
  \<open>resolve_alias_chain_frames frames\<close> is the method run with room for \<open>frames\<close> nested
  calls of itself: the first equation is the call that no longer fits, the second is the
  body above, the exception of the inner call passing through unchanged.
\<close>

datatype stack_error = RecursionError

fun resolve_alias_chain_frames ::
  "nat \<Rightarrow> (string \<times> variable) list \<Rightarrow> string \<Rightarrow> string \<Rightarrow> string set
     \<Rightarrow> stack_error + bool \<times> mode_value option \<times> string list" where
  "resolve_alias_chain_frames 0 idx variable_id mode_id visited = Inl RecursionError"
| "resolve_alias_chain_frames (Suc frames) idx variable_id mode_id visited =
     (if variable_id \<in> visited then Inr (False, None, [''CIRCULAR: '' @ variable_id])
      else
        (let visited' = insert variable_id visited in
         case map_of idx variable_id of
           None \<Rightarrow> Inr (False, None, [''NOT_FOUND: '' @ variable_id])
         | Some variable \<Rightarrow>
             (let chain_path = [v_name variable] in
              case map_of (valuesByMode variable) mode_id of
                None \<Rightarrow> Inr (False, None, chain_path @ [''NO_VALUE_FOR_MODE: '' @ mode_id])
              | Some (OtherValue t ty) \<Rightarrow>
                  if \<not> t
                  then Inr (False, None, chain_path @ [''NO_VALUE_FOR_MODE: '' @ mode_id])
                  else Inr (False, None, chain_path @ [''UNKNOWN_VALUE_TYPE: '' @ ty])
              | Some (Color cr cg cb ca) \<Rightarrow> Inr (True, Some (Color cr cg cb ca), chain_path)
              | Some (VariableAlias target) \<Rightarrow>
                  if CHR ''/'' \<in> set target
                  then Inr (False, None, chain_path @ [''EXTERNAL_REF: '' @ target])
                  else
                    (case resolve_alias_chain_frames frames idx target mode_id visited' of
                       Inl raised \<Rightarrow> Inl raised
                     | Inr (success, final_value, sub_chain) \<Rightarrow>
                         Inr (success, final_value, chain_path @ sub_chain)))))"


text \<open>
  \<open>AliasValidator.validate_collection\<close>. The report is the \<open>results\<close> dictionary; the
  key \<open>error\<close> is absent (\<open>None\<close>) unless one of the two early returns sets it. Each
  variable is resolved in the first declared mode only, from an empty \<open>visited\<close> set
  (the default argument \<open>None\<close> makes a new set per call). \<open>validate_variable\<close> is the
  body of the loop over the collection's variables.
\<close>

record validation_results =
  collection_name :: string
  total_variables :: nat
  valid_chains :: nat
  broken_chains :: nat
  circular_refs :: nat
  external_refs :: nat
  white_colors :: nat
  proper_colors :: nat
  broken_examples :: "(string \<times> string) list"
  error :: "string option"

definition initial_results :: "string \<Rightarrow> validation_results" where
  "initial_results name =
     \<lparr>collection_name = name, total_variables = 0, valid_chains = 0, broken_chains = 0,
      circular_refs = 0, external_refs = 0, white_colors = 0, proper_colors = 0,
      broken_examples = [], error = None\<rparr>"

text \<open>
  \<open>if final_value:\<close> holds for every dictionary with a key; on success the resolver
  hands back the direct colour it found, so only that shape is counted here, and
  \<open>successful_value_is_color\<close> below shows no other shape arrives.
\<close>

definition count_color :: "mode_value option \<Rightarrow> validation_results \<Rightarrow> validation_results" where
  "count_color final_value results =
     (case final_value of
        Some (Color cr cg cb ca) \<Rightarrow>
          if cr = 1 \<and> cg = 1 \<and> cb = 1
          then results\<lparr>white_colors := white_colors results + 1\<rparr>
          else results\<lparr>proper_colors := proper_colors results + 1\<rparr>
      | _ \<Rightarrow> results)"

definition classify_broken ::
  "string \<Rightarrow> string list \<Rightarrow> validation_results \<Rightarrow> validation_results" where
  "classify_broken name chain_path results =
     (let results1 =
            (if list_ex (str_contains ''CIRCULAR'') chain_path
             then results\<lparr>circular_refs := circular_refs results + 1\<rparr>
             else if list_ex (str_contains ''EXTERNAL_REF'') chain_path
             then results\<lparr>external_refs := external_refs results + 1\<rparr>
             else results)
      in if length (broken_examples results1) < 5
         then results1\<lparr>broken_examples :=
                broken_examples results1 @ [(name, join '' -> '' chain_path)]\<rparr>
         else results1)"

definition validate_variable ::
  "(string \<times> variable) list \<Rightarrow> string \<Rightarrow> variable \<Rightarrow> validation_results
     \<Rightarrow> validation_results" where
  "validate_variable idx mode_id variable results =
     (let results1 = results\<lparr>total_variables := total_variables results + 1\<rparr> in
      case resolve_alias_chain idx (v_id variable) mode_id {} of
        (success, final_value, chain_path) \<Rightarrow>
          if success
          then count_color final_value
                 (results1\<lparr>valid_chains := valid_chains results1 + 1\<rparr>)
          else classify_broken (v_name variable) chain_path
                 (results1\<lparr>broken_chains := broken_chains results1 + 1\<rparr>))"

definition validate_collection :: "document \<Rightarrow> string \<Rightarrow> validation_results" where
  "validate_collection data name =
     (let results = initial_results name in
      case find (\<lambda>coll. c_name coll = name) (collections data) of
        None \<Rightarrow> results\<lparr>error := Some ''Collection not found''\<rparr>
      | Some collection \<Rightarrow>
          (case modes collection of
             [] \<Rightarrow> results\<lparr>error := Some ''No modes found''\<rparr>
           | first_mode # _ \<Rightarrow>
               fold (validate_variable (variables_by_id data) (modeId first_mode))
                    (variables collection) results))"

section \<open>deep\_alias\_trace.py: tracing a variable across all its modes\<close>





text \<open>
  Python's \<open>round\<close> and its \<open>'.3f'\<close> format round to the nearest value, exact ties to
  the even neighbour.
\<close>

definition round_half_even :: "real \<Rightarrow> int" where
  "round_half_even x =
     (let f = \<lfloor>x\<rfloor>; d = x - of_int f
      in if d < 1/2 then f else if 1/2 < d then f + 1 else if even f then f else f + 1)"






section \<open>fix\_external\_references.py: replacing aliases into a foreign library\<close>

text \<open>
  The dictionaries of constants keep their order of declaration; floats are written as
  the decimal fractions of the source.
\<close>

definition WEIGHT_ALPHA_MAP :: "(string \<times> real) list" where
  "WEIGHT_ALPHA_MAP =
     [(''Surface'', 8/100), (''Minimal'', 15/100), (''Low'', 55/100), (''Medium'', 77/100),
      (''High'', 87/100), (''Heavy'', 93/100), (''Bold'', 92/100), (''Bold A11Y'', 1)]"

definition GREY_RGB :: "real \<times> real \<times> real" where
  "GREY_RGB = (1, 1, 1)"

text \<open>The first direct colour among a variable's values, in the order of its modes.\<close>

fun first_direct_color :: "(string \<times> mode_value) list \<Rightarrow> (real \<times> real \<times> real) option" where
  "first_direct_color [] = None"
| "first_direct_color ((mode_id, Color cr cg cb ca) # rest) = Some (cr, cg, cb)"
| "first_direct_color ((mode_id, value_data) # rest) = first_direct_color rest"

definition extract_rgb_values_from_working_vars ::
  "collection \<Rightarrow> (string \<times> real \<times> real \<times> real) list" where
  "extract_rgb_values_from_working_vars semi_semantics_coll =
     fold (\<lambda>var rgb_by_color_value.
             let name = v_name var; parts = split_on CHR ''/'' name in
             if str_contains ''[Semi semantics]'' name \<and> 2 \<le> length parts
             then (case first_direct_color (valuesByMode var) of
                     None \<Rightarrow> rgb_by_color_value
                   | Some rgb \<Rightarrow>
                       AList.update (parts ! 0 @ ''/'' @ parts ! 1) rgb rgb_by_color_value)
             else rgb_by_color_value)
          (variables semi_semantics_coll) []"

definition get_rgb_for_variable ::
  "string \<Rightarrow> (string \<times> real \<times> real \<times> real) list \<Rightarrow> (real \<times> real \<times> real) option" where
  "get_rgb_for_variable name rgb_by_color_value =
     (let parts = split_on CHR ''/'' name in
      if length parts < 2 then None
      else
        (let color = parts ! 0; value_level = parts ! 1; key = color @ ''/'' @ value_level in
         case map_of rgb_by_color_value key of
           Some rgb \<Rightarrow> Some rgb
         | None \<Rightarrow> if color = ''Grey'' then Some GREY_RGB else Some GREY_RGB))"

definition get_alpha_for_weight :: "string \<Rightarrow> real" where
  "get_alpha_for_weight weight =
     (case map_of WEIGHT_ALPHA_MAP weight of
        Some alpha \<Rightarrow> alpha
      | None \<Rightarrow>
          (case find (\<lambda>(key, alpha). str_contains key weight) WEIGHT_ALPHA_MAP of
             Some (key, alpha) \<Rightarrow> alpha
           | None \<Rightarrow> 77/100))"

text \<open>
  \<open>has_external\<close>: some value of the variable is an alias whose id contains \<open>/\<close>.
\<close>

definition has_external :: "variable \<Rightarrow> bool" where
  "has_external var =
     list_ex (\<lambda>(mode_id, value).
                case value of VariableAlias target \<Rightarrow> CHR ''/'' \<in> set target | _ \<Rightarrow> False)
             (valuesByMode var)"

text \<open>
  \<open>for mode_id in var['valuesByMode'].keys(): var['valuesByMode'][mode_id] = {...}\<close>
\<close>

definition overwrite_all_modes :: "mode_value \<Rightarrow> (string \<times> mode_value) list
     \<Rightarrow> (string \<times> mode_value) list" where
  "overwrite_all_modes new vbm =
     fold (\<lambda>mode_id acc. AList.update mode_id new acc) (map fst vbm) vbm"

record fix_stats =
  stat_total_variables :: nat
  stat_fixed_variables :: nat
  stat_already_ok :: nat
  stat_external_refs_found :: nat
  stat_errors :: nat

definition no_stats :: fix_stats where
  "no_stats = \<lparr>stat_total_variables = 0, stat_fixed_variables = 0, stat_already_ok = 0,
               stat_external_refs_found = 0, stat_errors = 0\<rparr>"

text \<open>
  The body of the loop over the collection's variables: the variable as the pass leaves
  it, and the statistics after it.
\<close>

definition fix_variable_v1 ::
  "(string \<times> real \<times> real \<times> real) list \<Rightarrow> variable \<Rightarrow> fix_stats \<Rightarrow> variable \<times> fix_stats" where
  "fix_variable_v1 rgb_by_color_value var stats0 =
     (let stats = stats0\<lparr>stat_total_variables := stat_total_variables stats0 + 1\<rparr>;
          name = v_name var in
      if str_contains ''[Semi semantics]'' name
      then (var, stats\<lparr>stat_already_ok := stat_already_ok stats + 1\<rparr>)
      else if \<not> has_external var
      then (var, stats\<lparr>stat_already_ok := stat_already_ok stats + 1\<rparr>)
      else
        (let parts = split_on CHR ''/'' name in
         if length parts < 3
         then (var, stats\<lparr>stat_errors := stat_errors stats + 1\<rparr>)
         else
           (let weight = parts ! 2 in
            case get_rgb_for_variable name rgb_by_color_value of
              None \<Rightarrow> (var, stats\<lparr>stat_errors := stat_errors stats + 1\<rparr>)
            | Some (cr, cg, cb) \<Rightarrow>
                (let alpha = get_alpha_for_weight weight in
                 (var\<lparr>valuesByMode :=
                        overwrite_all_modes (Color cr cg cb alpha) (valuesByMode var)\<rparr>,
                  stats\<lparr>stat_fixed_variables := stat_fixed_variables stats + 1\<rparr>)))))"

text \<open>
  Running a loop body over the variables in order, threading the statistics, and
  rewriting the first collection that satisfies a test (the \<open>break\<close> after the first
  match; the rewritten collection is the same object inside \<open>data\<close>).
\<close>

fun run_variables ::
  "(variable \<Rightarrow> fix_stats \<Rightarrow> variable \<times> fix_stats) \<Rightarrow> variable list \<Rightarrow> fix_stats
     \<Rightarrow> variable list \<times> fix_stats" where
  "run_variables body [] stats = ([], stats)"
| "run_variables body (var # vars) stats =
     (case body var stats of
        (var', stats') \<Rightarrow>
          (case run_variables body vars stats' of
             (vars', stats'') \<Rightarrow> (var' # vars', stats'')))"

fun rewrite_first :: "('a \<Rightarrow> bool) \<Rightarrow> ('a \<Rightarrow> 'a) \<Rightarrow> 'a list \<Rightarrow> 'a list" where
  "rewrite_first p f [] = []"
| "rewrite_first p f (x # xs) = (if p x then f x # xs else x # rewrite_first p f xs)"

definition fix_external_references :: "document \<Rightarrow> document \<times> fix_stats" where
  "fix_external_references data =
     (case find (\<lambda>coll. c_name coll = ''00_Semi semantics'') (collections data) of
        None \<Rightarrow> (data, no_stats)
      | Some semi_semantics_coll \<Rightarrow>
          (let rgb_by_color_value = extract_rgb_values_from_working_vars semi_semantics_coll;
               body = fix_variable_v1 rgb_by_color_value
           in (data\<lparr>collections :=
                      rewrite_first (\<lambda>coll. c_name coll = ''00_Semi semantics'')
                        (\<lambda>coll. coll\<lparr>variables :=
                                   fst (run_variables body (variables coll) no_stats)\<rparr>)
                        (collections data)\<rparr>,
               snd (run_variables body (variables semi_semantics_coll) no_stats))))"

section \<open>fix\_external\_references\_v2.py: the same pass with a fixed colour table\<close>

definition COLOR_RGB_MAP :: "(string \<times> real \<times> real \<times> real) list" where
  "COLOR_RGB_MAP =
     [(''Grey'', (1, 1, 1)),
      (''Indigo'', (40/1000, 0, 200/1000)),
      (''Saffron'', (110/1000, 20/1000, 0)),
      (''Green'', (0, 70/1000, 20/1000)),
      (''Gold'', (60/1000, 50/1000, 40/1000)),
      (''Cabbage'', (60/1000, 50/1000, 40/1000)),
      (''Orange'', (100/1000, 30/1000, 0)),
      (''Informative'', (0, 50/1000, 120/1000)),
      (''Negative'', (130/1000, 0, 10/1000)),
      (''Positive'', (30/1000, 60/1000, 30/1000)),
      (''Warning'', (110/1000, 20/1000, 0)),
      (''Purple [700]'', (60/1000, 50/1000, 40/1000)),
      (''Sky [1200]'', (0, 60/1000, 100/1000)),
      (''Sky [1000]'', (0, 60/1000, 100/1000))]"

definition get_rgb_for_color :: "string \<Rightarrow> real \<times> real \<times> real" where
  "get_rgb_for_color color_name =
     (case map_of COLOR_RGB_MAP color_name of
        Some rgb \<Rightarrow> rgb
      | None \<Rightarrow>
          (case find (\<lambda>(key, rgb). startswith color_name key) COLOR_RGB_MAP of
             Some (key, rgb) \<Rightarrow> rgb
           | None \<Rightarrow> (1, 1, 1)))"

text \<open>
  Whitespace on ASCII text. \<open>str.split()\<close>, \<open>str.isspace()\<close> and the pattern \<open>\s\<close> take
  the six characters of C's \<open>isspace\<close> and the four separators \<open>0x1C\<close> to \<open>0x1F\<close>;
  \<open>int(s)\<close> and \<open>float(s)\<close> drop only the six at both ends and reject the separators.
\<close>

definition is_space :: "char \<Rightarrow> bool" where
  "is_space c = (c \<in> set [CHR 0x09, CHR 0x0A, CHR 0x0B, CHR 0x0C, CHR 0x0D,
                           CHR 0x1C, CHR 0x1D, CHR 0x1E, CHR 0x1F, CHR '' ''])"

definition is_c_space :: "char \<Rightarrow> bool" where
  "is_c_space c = (c \<in> set [CHR 0x09, CHR 0x0A, CHR 0x0B, CHR 0x0C, CHR 0x0D, CHR '' ''])"

definition is_digit :: "char \<Rightarrow> bool" where
  "is_digit c = (c \<in> set ''0123456789'')"

definition strip_number :: "string \<Rightarrow> string" where
  "strip_number s = rev (dropWhile is_c_space (rev (dropWhile is_c_space s)))"

text \<open>
  Python's \<open>int(s)\<close> on ASCII text: surrounding whitespace is dropped, one sign is
  allowed, then decimal digits, single underscores allowed between digits. \<open>None\<close> is
  the \<open>ValueError\<close>.
\<close>

definition digit_value :: "char \<Rightarrow> nat" where
  "digit_value c = of_char c - 48"

text \<open>Digits with single underscores between them; the value read so far is carried.\<close>

fun read_digits :: "nat \<Rightarrow> string \<Rightarrow> nat option" where
  "read_digits acc [] = Some acc"
| "read_digits acc [c] = (if is_digit c then Some (acc * 10 + digit_value c) else None)"
| "read_digits acc (c # d # cs) =
     (if is_digit c then read_digits (acc * 10 + digit_value c) (d # cs)
      else if c = CHR ''_'' \<and> is_digit d then read_digits acc (d # cs)
      else None)"

definition read_digitpart :: "string \<Rightarrow> nat option" where
  "read_digitpart s =
     (case s of [] \<Rightarrow> None | c # cs \<Rightarrow> if is_digit c then read_digits 0 s else None)"

definition py_int :: "string \<Rightarrow> int option" where
  "py_int s =
     (case strip_number s of
        [] \<Rightarrow> None
      | c # cs \<Rightarrow>
          if c = CHR ''-'' then map_option (\<lambda>n. - int n) (read_digitpart cs)
          else if c = CHR ''+'' then map_option int (read_digitpart cs)
          else map_option int (read_digitpart (c # cs)))"

definition fix_variable_v2 :: "variable \<Rightarrow> fix_stats \<Rightarrow> variable \<times> fix_stats" where
  "fix_variable_v2 var stats0 =
     (let stats = stats0\<lparr>stat_total_variables := stat_total_variables stats0 + 1\<rparr>;
          name = v_name var in
      if str_contains ''[Semi semantics]'' name
      then (var, stats\<lparr>stat_already_ok := stat_already_ok stats + 1\<rparr>)
      else if \<not> has_external var
      then (var, stats\<lparr>stat_already_ok := stat_already_ok stats + 1\<rparr>)
      else
        (let stats1 = stats\<lparr>stat_external_refs_found := stat_external_refs_found stats + 1\<rparr>;
             parts = split_on CHR ''/'' name in
         if length parts < 3
         then (var, stats1\<lparr>stat_errors := stat_errors stats1 + 1\<rparr>)
         else
           (let color_name = parts ! 0; value_level = parts ! 1; weight = parts ! 2;
                rgb = get_rgb_for_color color_name;
                alpha = get_alpha_for_weight weight;
                rgb' = (case py_int value_level of
                          Some value_num \<Rightarrow> if 2100 \<le> value_num then (1, 1, 1) else rgb
                        | None \<Rightarrow> rgb)
            in case rgb' of
                 (cr, cg, cb) \<Rightarrow>
                   (var\<lparr>valuesByMode :=
                          overwrite_all_modes (Color cr cg cb alpha) (valuesByMode var)\<rparr>,
                    stats1\<lparr>stat_fixed_variables := stat_fixed_variables stats1 + 1\<rparr>))))"

definition fix_external_references_v2 :: "document \<Rightarrow> document \<times> fix_stats" where
  "fix_external_references_v2 data =
     (case find (\<lambda>coll. c_name coll = ''00_Semi semantics'') (collections data) of
        None \<Rightarrow> (data, no_stats)
      | Some semi_semantics_coll \<Rightarrow>
          (data\<lparr>collections :=
                  rewrite_first (\<lambda>coll. c_name coll = ''00_Semi semantics'')
                    (\<lambda>coll. coll\<lparr>variables :=
                               fst (run_variables fix_variable_v2 (variables coll) no_stats)\<rparr>)
                    (collections data)\<rparr>,
           snd (run_variables fix_variable_v2 (variables semi_semantics_coll) no_stats)))"

section \<open>fix\_all\_white\_colors.py: replacing white placeholders from the palette\<close>

text \<open>
  The regular expressions of \<open>extract_color_info_from_name\<close> on ASCII text: \<open>\w\<close> is a
  letter, a digit or the underscore, \<open>\d\<close> a digit, \<open>\s\<close> a whitespace character. None of
  the three classes contains \<open>/\<close>, so a greedy run followed by a fixed character matches
  in one way only.
\<close>

definition is_word :: "char \<Rightarrow> bool" where
  "is_word c =
     (c \<in> set ''abcdefghijklmnopqrstuvwxyzABCDEFGHIJKLMNOPQRSTUVWXYZ0123456789_'')"

definition lower_char :: "char \<Rightarrow> char" where
  "lower_char c =
     (if c \<in> set ''ABCDEFGHIJKLMNOPQRSTUVWXYZ'' then char_of (of_char c + (32::nat)) else c)"

definition lower :: "string \<Rightarrow> string" where
  "lower s = map lower_char s"

text \<open>
  \<open>^(\w+)/(\d+)/\<close> and \<open>^(\w+)/(\d+)\s\<close>: the two groups, when the name starts with a
  word, a slash, digits, and then a character accepted by \<open>stop\<close>.
\<close>

definition match_family_step :: "(char \<Rightarrow> bool) \<Rightarrow> string \<Rightarrow> (string \<times> string) option" where
  "match_family_step stop name =
     (let family = takeWhile is_word name; rest = dropWhile is_word name in
      if family = [] then None
      else
        (case rest of
           [] \<Rightarrow> None
         | c # after_slash \<Rightarrow>
             if c \<noteq> CHR ''/'' then None
             else
               (let digits = takeWhile is_digit after_slash;
                    rest' = dropWhile is_digit after_slash in
                if digits = [] then None
                else (case rest' of
                        [] \<Rightarrow> None
                      | e # _ \<Rightarrow> if stop e then Some (family, digits) else None))))"

text \<open>
  \<open>re.search(r'/(\d{3,4})/', name)\<close>: the leftmost slash followed by three or four
  digits and a slash.
\<close>

fun search_step :: "string \<Rightarrow> string option" where
  "search_step [] = None"
| "search_step (c # cs) =
     (let digits = takeWhile is_digit cs; rest = dropWhile is_digit cs in
      if c = CHR ''/'' \<and> (length digits = 3 \<or> length digits = 4)
         \<and> (case rest of [] \<Rightarrow> False | e # _ \<Rightarrow> e = CHR ''/'')
      then Some digits
      else search_step cs)"

definition known_palettes :: "string list" where
  "known_palettes = [''grey'', ''indigo'', ''gold'', ''saffron'', ''green'', ''red'', ''blue'']"

definition extract_color_info_from_name :: "string \<Rightarrow> string option \<times> string option" where
  "extract_color_info_from_name name =
     (case match_family_step (\<lambda>e. e = CHR ''/'') name of
        Some (family, step) \<Rightarrow> (Some (lower family), Some step)
      | None \<Rightarrow>
          (case match_family_step is_space name of
             Some (family, step) \<Rightarrow> (Some (lower family), Some step)
           | None \<Rightarrow>
               (case find (\<lambda>palette. startswith (lower name) (palette @ ''/'')) known_palettes of
                  Some palette \<Rightarrow> (Some palette, search_step name)
                | None \<Rightarrow> (None, None))))"

text \<open>\<open>round(x, 4)\<close>.\<close>

definition round4 :: "real \<Rightarrow> real" where
  "round4 x = of_int (round_half_even (x * 10000)) / 10000"

text \<open>
  The body of the loop over \<open>values_by_mode.items()\<close>: the value the pass leaves for one
  mode, and whether it counted a fix. Only a direct colour with \<open>r = g = b = 1.0\<close> is
  replaced, and only when the palette has the step; the alpha of that mode is kept.
\<close>

definition fix_white_value ::
  "(string \<times> (string \<times> real \<times> real \<times> real) list) list \<Rightarrow> string option \<Rightarrow> string option
     \<Rightarrow> mode_value \<Rightarrow> mode_value option" where
  "fix_white_value rangde_palettes_rgb palette_name step mode_value =
     (case mode_value of
        Color current_r current_g current_b alpha \<Rightarrow>
          if current_r = 1 \<and> current_g = 1 \<and> current_b = 1
          then (case (palette_name, step) of
                  (Some pn, Some st) \<Rightarrow>
                    if pn \<noteq> [] \<and> st \<noteq> []
                    then (case map_of rangde_palettes_rgb pn of
                            None \<Rightarrow> None
                          | Some palette \<Rightarrow>
                              (case map_of palette st of
                                 None \<Rightarrow> None
                               | Some (pr, pg, pb) \<Rightarrow>
                                   Some (Color (round4 pr) (round4 pg) (round4 pb) alpha)))
                    else None
                | _ \<Rightarrow> None)
          else None
      | _ \<Rightarrow> None)"

definition fix_white_variable ::
  "(string \<times> (string \<times> real \<times> real \<times> real) list) list \<Rightarrow> variable \<Rightarrow> variable \<times> nat" where
  "fix_white_variable rangde_palettes_rgb variable =
     (case extract_color_info_from_name (v_name variable) of
        (palette_name, step) \<Rightarrow>
          (case fold (\<lambda>(mode_id, mode_value) (values_by_mode, fixed_count).
                        case fix_white_value rangde_palettes_rgb palette_name step mode_value of
                          None \<Rightarrow> (values_by_mode, fixed_count)
                        | Some new \<Rightarrow>
                            (AList.update mode_id new values_by_mode, fixed_count + 1))
                     (valuesByMode variable) (valuesByMode variable, 0) of
             (values_by_mode, fixed_count) \<Rightarrow>
               (variable\<lparr>valuesByMode := values_by_mode\<rparr>, fixed_count)))"

definition fix_all_white_colors ::
  "document \<Rightarrow> (string \<times> (string \<times> real \<times> real \<times> real) list) list \<Rightarrow> document \<times> nat" where
  "fix_all_white_colors data rangde_palettes_rgb =
     (let fixed_collections =
            map (\<lambda>collection.
                   let fixed_variables =
                         map (fix_white_variable rangde_palettes_rgb) (variables collection)
                   in (collection\<lparr>variables := map fst fixed_variables\<rparr>,
                       sum_list (map snd fixed_variables)))
                (collections data)
      in (data\<lparr>collections := map fst fixed_collections\<rparr>,
          sum_list (map snd fixed_collections)))"

section \<open>Python floats\<close>

text \<open>
  A finite Python float is a real number representable in IEEE 754 binary64, and every
  arithmetic operation returns the exact result rounded to the nearest such number,
  ties to the one with an even significand. \<open>rnd\<close> is that rounding for magnitudes in
  the normal range (53 significant bits); overflow to infinity and gradual underflow
  are not modelled. \<open>math.cos\<close>, \<open>math.sin\<close> and \<open>**\<close> are read as correctly rounded.
\<close>

definition rnd :: "real \<Rightarrow> real" where
  "rnd x =
     (if x = 0 then 0
      else (let e = \<lfloor>log 2 \<bar>x\<bar>\<rfloor>
            in of_int (round_half_even (x * 2 powr (52 - of_int e))) * 2 powr (of_int e - 52)))"

definition fl_add :: "real \<Rightarrow> real \<Rightarrow> real" where "fl_add x y = rnd (x + y)"
definition fl_sub :: "real \<Rightarrow> real \<Rightarrow> real" where "fl_sub x y = rnd (x - y)"
definition fl_mul :: "real \<Rightarrow> real \<Rightarrow> real" where "fl_mul x y = rnd (x * y)"
definition fl_div :: "real \<Rightarrow> real \<Rightarrow> real" where "fl_div x y = rnd (x / y)"
definition fl_pow :: "real \<Rightarrow> real \<Rightarrow> real" where "fl_pow x y = rnd (x powr y)"
definition py_cos :: "real \<Rightarrow> real" where "py_cos x = rnd (cos x)"
definition py_sin :: "real \<Rightarrow> real" where "py_sin x = rnd (sin x)"
definition py_pi :: real where "py_pi = rnd pi"

text \<open>
  \<open>float(s)\<close> on ASCII text: surrounding whitespace is dropped, one sign is allowed,
  then either \<open>inf\<close>, \<open>infinity\<close> or \<open>nan\<close> in any case, or a decimal number with an
  optional fraction and an optional exponent, single underscores allowed between
  digits. \<open>Invalid\<close> is the \<open>ValueError\<close>. The non-finite values are recognised but given
  no number.
\<close>

datatype parsed_float = Invalid | NonFinite | Finite real

definition digits_ok :: "string \<Rightarrow> bool" where
  "digits_ok s = (s = [] \<or> read_digitpart s \<noteq> None)"

definition digits_value :: "string \<Rightarrow> nat" where
  "digits_value s = (case read_digitpart s of None \<Rightarrow> 0 | Some n \<Rightarrow> n)"

definition parse_exponent :: "string \<Rightarrow> int option" where
  "parse_exponent s =
     (case s of
        [] \<Rightarrow> None
      | c # cs \<Rightarrow>
          if c = CHR ''-'' then map_option (\<lambda>n. - int n) (read_digitpart cs)
          else if c = CHR ''+'' then map_option int (read_digitpart cs)
          else map_option int (read_digitpart s))"

definition pow10 :: "int \<Rightarrow> real" where
  "pow10 ex = (if 0 \<le> ex then 10 ^ nat ex else 1 / 10 ^ nat (- ex))"

definition parse_number :: "string \<Rightarrow> real option" where
  "parse_number s =
     (let is_e = (\<lambda>c. c = CHR ''e'' \<or> c = CHR ''E'');
          mantissa = takeWhile (\<lambda>c. \<not> is_e c) s;
          after_mantissa = dropWhile (\<lambda>c. \<not> is_e c) s;
          int_part = takeWhile (\<lambda>c. c \<noteq> CHR ''.'') mantissa;
          after_int = dropWhile (\<lambda>c. c \<noteq> CHR ''.'') mantissa;
          frac_part = tl after_int;
          exponent = (if after_mantissa = [] then Some 0 else parse_exponent (tl after_mantissa))
      in if \<not> digits_ok int_part \<or> \<not> digits_ok frac_part then None
         else if int_part = [] \<and> frac_part = [] then None
         else (case exponent of
                 None \<Rightarrow> None
               | Some ex \<Rightarrow>
                   Some ((real (digits_value int_part)
                          + real (digits_value frac_part)
                            / 10 ^ length (filter is_digit frac_part))
                         * pow10 ex)))"

definition py_float :: "string \<Rightarrow> parsed_float" where
  "py_float s =
     (let t = strip_number s;
          negative = (t \<noteq> [] \<and> hd t = CHR ''-'');
          body = (if t \<noteq> [] \<and> (hd t = CHR ''-'' \<or> hd t = CHR ''+'') then tl t else t)
      in if lower body \<in> set [''inf'', ''infinity'', ''nan''] then NonFinite
         else (case parse_number body of
                 None \<Rightarrow> Invalid
               | Some x \<Rightarrow> Finite (rnd (if negative then - x else x))))"

section \<open>\<open>oklch_to_rgb\<close>, in fix\_all\_white\_colors.py and fix\_figma\_variable\_colors.py\<close>

text \<open>\<open>re.match(r'oklch\(([^)]+)\)', s)\<close>: the text of the group, when there is a match.\<close>

definition match_oklch :: "string \<Rightarrow> string option" where
  "match_oklch s =
     (if startswith s ''oklch(''
      then (let inside = takeWhile (\<lambda>c. c \<noteq> CHR '')'') (drop 6 s);
                rest = dropWhile (\<lambda>c. c \<noteq> CHR '')'') (drop 6 s)
            in if inside \<noteq> [] \<and> rest \<noteq> [] then Some inside else None)
      else None)"

text \<open>\<open>s.split()\<close>: the maximal runs of non-whitespace characters.\<close>

fun split_ws :: "string \<Rightarrow> string \<Rightarrow> string list" where
  "split_ws cur [] = (if cur = [] then [] else [cur])"
| "split_ws cur (c # cs) =
     (if is_space c then (if cur = [] then split_ws [] cs else cur # split_ws [] cs)
      else split_ws (cur @ [c]) cs)"

definition rstrip_percent :: "string \<Rightarrow> string" where
  "rstrip_percent s = rev (dropWhile (\<lambda>c. c = CHR ''%'') (rev s))"

definition linear_to_srgb :: "real \<Rightarrow> real" where
  "linear_to_srgb v =
     (let val = max 0 (min 1 v) in
      if val \<le> rnd (31308/10000000) then fl_mul val (rnd (1292/100))
      else fl_sub (fl_mul (rnd (1055/1000)) (fl_pow val (fl_div 1 (rnd (24/10)))))
                  (rnd (55/1000)))"

text \<open>
  The arithmetic of \<open>oklch_to_rgb\<close> from the conversion of the hue to radians on:
  \<open>L\<close> is the lightness already divided by 100, \<open>C\<close> the chroma, \<open>H_deg\<close> the hue in
  degrees. Python evaluates \<open>x + y + z\<close> and \<open>x - y - z\<close> from the left.
\<close>

definition convert :: "real \<Rightarrow> real \<Rightarrow> real \<Rightarrow> real \<times> real \<times> real" where
  "convert L C H_deg =
     (let H = fl_div (fl_mul H_deg py_pi) 180;
          a = fl_mul C (py_cos H);
          b = fl_mul C (py_sin H);
          l' = fl_add (fl_add L (fl_mul (rnd (3963377774/10000000000)) a))
                      (fl_mul (rnd (2158037573/10000000000)) b);
          m' = fl_sub (fl_sub L (fl_mul (rnd (1055613458/10000000000)) a))
                      (fl_mul (rnd (638541728/10000000000)) b);
          s' = fl_sub (fl_sub L (fl_mul (rnd (894841775/10000000000)) a))
                      (fl_mul (rnd (12914855480/10000000000)) b);
          l = fl_mul (fl_mul l' l') l';
          m = fl_mul (fl_mul m' m') m';
          s = fl_mul (fl_mul s' s') s';
          r_lin = fl_add (fl_sub (fl_mul (rnd (40767416621/10000000000)) l)
                                 (fl_mul (rnd (33077115913/10000000000)) m))
                         (fl_mul (rnd (2309699292/10000000000)) s);
          g_lin = fl_sub (fl_add (fl_mul (- rnd (12684380046/10000000000)) l)
                                 (fl_mul (rnd (26097574011/10000000000)) m))
                         (fl_mul (rnd (3413193965/10000000000)) s);
          b_lin = fl_add (fl_sub (fl_mul (- rnd (41960863/10000000000)) l)
                                 (fl_mul (rnd (7034186147/10000000000)) m))
                         (fl_mul (rnd (17076147010/10000000000)) s)
      in (linear_to_srgb r_lin, linear_to_srgb g_lin, linear_to_srgb b_lin))"

text \<open>
  \<open>oklch_to_rgb\<close>. The three parameters are converted in the order of the source, and
  the first that \<open>float\<close> rejects raises \<open>ValueError\<close>; nothing in the function catches
  it. A parameter that reads as infinity or nan has no number here, so the model stops
  with \<open>NonFiniteParameter\<close> where the source goes on computing with it.
\<close>

datatype py_error = ValueError | NonFiniteParameter

definition oklch_to_rgb :: "string \<Rightarrow> py_error + real \<times> real \<times> real" where
  "oklch_to_rgb oklch_string =
     (case match_oklch oklch_string of
        None \<Rightarrow> Inr (0, 0, 0)
      | Some inside \<Rightarrow>
          (let parts = split_ws [] inside in
           if length parts < 3 then Inr (0, 0, 0)
           else
             (case py_float (rstrip_percent (parts ! 0)) of
                Invalid \<Rightarrow> Inl ValueError
              | NonFinite \<Rightarrow> Inl NonFiniteParameter
              | Finite l_percent \<Rightarrow>
                  (case py_float (parts ! 1) of
                     Invalid \<Rightarrow> Inl ValueError
                   | NonFinite \<Rightarrow> Inl NonFiniteParameter
                   | Finite C \<Rightarrow>
                       (case py_float (parts ! 2) of
                          Invalid \<Rightarrow> Inl ValueError
                        | NonFinite \<Rightarrow> Inl NonFiniteParameter
                        | Finite H_deg \<Rightarrow>
                            Inr (convert (fl_div l_percent 100) C H_deg))))))"

section \<open>Predicates used in the statements\<close>

text \<open>
  What the repair passes select. A value is the white placeholder when it is a direct
  colour with \<open>r = g = b = 1\<close>. The external-reference pass rewrites a variable when
  its name lacks \<open>[Semi semantics]\<close>, one of its values is an alias into a foreign
  library, and its name has at least three parts.
\<close>

definition is_white :: "mode_value \<Rightarrow> bool" where
  "is_white value = (case value of Color cr cg cb ca \<Rightarrow> cr = 1 \<and> cg = 1 \<and> cb = 1 | _ \<Rightarrow> False)"

definition has_white :: "variable \<Rightarrow> bool" where
  "has_white var = list_ex (\<lambda>(mode_id, value). is_white value) (valuesByMode var)"

definition selected_external :: "variable \<Rightarrow> bool" where
  "selected_external var =
     (\<not> str_contains ''[Semi semantics]'' (v_name var) \<and> has_external var
      \<and> 3 \<le> length (split_on CHR ''/'' (v_name var)))"

definition same_variable_identity :: "variable \<Rightarrow> variable \<Rightarrow> bool" where
  "same_variable_identity var var' =
     (v_id var' = v_id var \<and> v_name var' = v_name var
      \<and> resolvedType var' = resolvedType var
      \<and> map fst (valuesByMode var') = map fst (valuesByMode var))"

definition same_collection_identity :: "collection \<Rightarrow> collection \<Rightarrow> bool" where
  "same_collection_identity coll coll' =
     (c_id coll' = c_id coll \<and> c_name coll' = c_name coll \<and> modes coll' = modes coll
      \<and> list_all2 same_variable_identity (variables coll) (variables coll'))"

text \<open>
  \<open>all_modes_are new var var'\<close>: \<open>var'\<close> has the mode ids of \<open>var\<close> and the value
  \<open>new\<close> under each.
\<close>

definition all_modes_are :: "mode_value \<Rightarrow> variable \<Rightarrow> variable \<Rightarrow> bool" where
  "all_modes_are new var var' =
     (map fst (valuesByMode var') = map fst (valuesByMode var)
      \<and> (\<forall>mode_id \<in> fst ` set (valuesByMode var).
             map_of (valuesByMode var') mode_id = Some new))"

text \<open>The two sums the report's counters are expected to satisfy.\<close>

definition counters_agree :: "validation_results \<Rightarrow> bool" where
  "counters_agree results \<longleftrightarrow>
     total_variables results = valid_chains results + broken_chains results
     \<and> valid_chains results = white_colors results + proper_colors results"

section \<open>Alias chains\<close>

text \<open>
  \<open>follows_alias idx mode_id x y\<close>: the resolver, standing at \<open>x\<close>, follows an alias to
  \<open>y\<close>, that is, \<open>x\<close> is indexed, its value for the mode is an alias to \<open>y\<close>, and \<open>y\<close> has
  no foreign-namespace separator (such a target ends the chain as an external reference
  and is never followed). An alias path is a list of ids, each followed to the next.
\<close>

definition follows_alias ::
  "(string \<times> variable) list \<Rightarrow> string \<Rightarrow> string \<Rightarrow> string \<Rightarrow> bool" where
  "follows_alias idx mode_id x y =
     (case map_of idx x of
        None \<Rightarrow> False
      | Some variable \<Rightarrow>
          map_of (valuesByMode variable) mode_id = Some (VariableAlias y)
          \<and> CHR ''/'' \<notin> set y)"

fun alias_path :: "(string \<times> variable) list \<Rightarrow> string \<Rightarrow> string list \<Rightarrow> bool" where
  "alias_path idx mode_id (x # y # ys) =
     (follows_alias idx mode_id x y \<and> alias_path idx mode_id (y # ys))"
| "alias_path idx mode_id _ = True"

definition name_of :: "(string \<times> variable) list \<Rightarrow> string \<Rightarrow> string" where
  "name_of idx x = (case map_of idx x of None \<Rightarrow> [] | Some variable \<Rightarrow> v_name variable)"

section \<open>Example documents\<close>

text \<open>Two variables aliasing each other in mode \<open>m0\<close>, and one aliasing a foreign id.\<close>

definition var_A :: variable where
  "var_A = \<lparr>v_id = ''VariableID:1:1'', v_name = ''Jio/A'', resolvedType = ''COLOR'',
            valuesByMode = [(''m0'', VariableAlias ''VariableID:1:2'')]\<rparr>"

definition var_B :: variable where
  "var_B = \<lparr>v_id = ''VariableID:1:2'', v_name = ''Jio/B'', resolvedType = ''COLOR'',
            valuesByMode = [(''m0'', VariableAlias ''VariableID:1:1'')]\<rparr>"

definition var_E :: variable where
  "var_E = \<lparr>v_id = ''VariableID:1:3'', v_name = ''Jio/E'', resolvedType = ''COLOR'',
            valuesByMode = [(''m0'', VariableAlias ''VariableID:abc123/7:9'')]\<rparr>"

definition cycle_index :: "(string \<times> variable) list" where
  "cycle_index =
     [(''VariableID:1:1'', var_A), (''VariableID:1:2'', var_B), (''VariableID:1:3'', var_E)]"

text \<open>A collection with a white value, a proper colour, the two-cycle and the foreign alias.\<close>

definition var_W :: variable where
  "var_W = \<lparr>v_id = ''VariableID:1:4'', v_name = ''Grey/2500/Surface'',
            resolvedType = ''COLOR'',
            valuesByMode = [(''m0'', Color 1 1 1 1), (''m1'', Color (1/2) (1/2) (1/2) 1)]\<rparr>"

definition var_P :: variable where
  "var_P = \<lparr>v_id = ''VariableID:1:5'', v_name = ''Jio/P'', resolvedType = ''COLOR'',
            valuesByMode = [(''m0'', VariableAlias ''VariableID:1:4''),
                            (''m1'', Color 0 (1/4) 1 1)]\<rparr>"

definition var_Q :: variable where
  "var_Q = \<lparr>v_id = ''VariableID:1:6'', v_name = ''Jio/Q'', resolvedType = ''COLOR'',
            valuesByMode = [(''m0'', Color 0 (1/4) 1 1)]\<rparr>"

definition theme_collection :: collection where
  "theme_collection =
     \<lparr>c_id = ''VariableCollectionId:1:0'', c_name = ''9 Theme'',
      modes = [\<lparr>modeId = ''m0'', m_name = ''MyJio''\<rparr>,
               \<lparr>modeId = ''m1'', m_name = ''JioHome''\<rparr>],
      variables = [var_A, var_B, var_E, var_W, var_P, var_Q]\<rparr>"

definition theme_document :: document where
  "theme_document = \<lparr>collections = [theme_collection]\<rparr>"




text \<open>
  A second collection, named as the repair passes expect: a working variable, a
  variable with a foreign alias in one mode, and the white variable from above. The
  palette offers one grey.
\<close>

definition var_S :: variable where
  "var_S = \<lparr>v_id = ''VariableID:2:1'', v_name = ''Indigo/2500/[Semi semantics] Bold'',
            resolvedType = ''COLOR'',
            valuesByMode = [(''m0'', Color (4/100) 0 (2/10) 1),
                            (''m1'', VariableAlias ''VariableID:abc123/7:8'')]\<rparr>"

definition var_X :: variable where
  "var_X = \<lparr>v_id = ''VariableID:2:2'', v_name = ''Indigo/2500/Surface'',
            resolvedType = ''COLOR'',
            valuesByMode = [(''m0'', VariableAlias ''VariableID:abc123/7:9''),
                            (''m1'', Color (1/2) (1/2) (1/2) 1)]\<rparr>"

definition semi_collection :: collection where
  "semi_collection =
     \<lparr>c_id = ''VariableCollectionId:2:0'', c_name = ''00_Semi semantics'',
      modes = [\<lparr>modeId = ''m0'', m_name = ''Light''\<rparr>, \<lparr>modeId = ''m1'', m_name = ''Dark''\<rparr>],
      variables = [var_S, var_X, var_W]\<rparr>"

definition repair_document :: document where
  "repair_document = \<lparr>collections = [theme_collection, semi_collection]\<rparr>"

definition example_palette :: "(string \<times> (string \<times> real \<times> real \<times> real) list) list" where
  "example_palette = [(''grey'', [(''2500'', (98768/100000, 98768/100000, 98768/100000))])]"






text \<open>Two variables that alias each other and bear the same name.\<close>

definition var_T1 :: variable where
  "var_T1 = \<lparr>v_id = ''VariableID:3:1'', v_name = ''Jio/X'', resolvedType = ''COLOR'',
             valuesByMode = [(''m0'', VariableAlias ''VariableID:3:2'')]\<rparr>"

definition var_T2 :: variable where
  "var_T2 = \<lparr>v_id = ''VariableID:3:2'', v_name = ''Jio/X'', resolvedType = ''COLOR'',
             valuesByMode = [(''m0'', VariableAlias ''VariableID:3:1'')]\<rparr>"

definition same_name_index :: "(string \<times> variable) list" where
  "same_name_index = [(''VariableID:3:1'', var_T1), (''VariableID:3:2'', var_T2)]"

text \<open>
  A collection \<open>00_Semi semantics\<close> whose first three variables end in a foreign alias in
  every mode: one named with \<open>[Semi semantics]\<close>, one whose name has two parts only, and
  one that reaches the foreign alias through a local alias. The fourth is white in
  mode \<open>m0\<close> only, with an alpha other than \<open>1\<close>.
\<close>

definition var_G :: variable where
  "var_G = \<lparr>v_id = ''VariableID:4:1'', v_name = ''Indigo/2500/[Semi semantics] Surface'',
            resolvedType = ''COLOR'',
            valuesByMode = [(''m0'', VariableAlias ''VariableID:abc123/7:8''),
                            (''m1'', VariableAlias ''VariableID:abc123/7:8'')]\<rparr>"

definition var_H :: variable where
  "var_H = \<lparr>v_id = ''VariableID:4:2'', v_name = ''Indigo/Surface'', resolvedType = ''COLOR'',
            valuesByMode = [(''m0'', VariableAlias ''VariableID:abc123/7:9''),
                            (''m1'', VariableAlias ''VariableID:abc123/7:9'')]\<rparr>"

definition var_J :: variable where
  "var_J = \<lparr>v_id = ''VariableID:4:3'', v_name = ''Indigo/2400/Bold'', resolvedType = ''COLOR'',
            valuesByMode = [(''m0'', VariableAlias ''VariableID:4:1''),
                            (''m1'', VariableAlias ''VariableID:4:1'')]\<rparr>"

definition var_K :: variable where
  "var_K = \<lparr>v_id = ''VariableID:4:4'', v_name = ''Grey/2500/Minimal'', resolvedType = ''COLOR'',
            valuesByMode = [(''m0'', Color 1 1 1 (15/100)),
                            (''m1'', Color (1/2) (1/2) (1/2) (15/100))]\<rparr>"

definition guarded_collection :: collection where
  "guarded_collection =
     \<lparr>c_id = ''VariableCollectionId:4:0'', c_name = ''00_Semi semantics'',
      modes = [\<lparr>modeId = ''m0'', m_name = ''Light''\<rparr>, \<lparr>modeId = ''m1'', m_name = ''Dark''\<rparr>],
      variables = [var_G, var_H, var_J, var_K]\<rparr>"

definition guarded_document :: document where
  "guarded_document = \<lparr>collections = [guarded_collection]\<rparr>"


section \<open>Properties of the resolver\<close>



lemma resolve_follows_alias:
  assumes "follows_alias idx mode_id x y" and "x \<notin> visited"
  shows "resolve_alias_chain idx x mode_id visited =
           (case resolve_alias_chain idx y mode_id (insert x visited) of
              (success, final_value, sub_chain) \<Rightarrow>
                (success, final_value, name_of idx x # sub_chain))"
  using assms
  by (auto simp: follows_alias_def name_of_def Let_def split: option.splits)

lemma resolve_along_path:
  assumes "alias_path idx mode_id (xs @ [y])"
    and "distinct xs"
    and "set xs \<inter> visited = {}"
  shows "resolve_alias_chain idx (hd (xs @ [y])) mode_id visited =
           (case resolve_alias_chain idx y mode_id (visited \<union> set xs) of
              (success, final_value, sub_chain) \<Rightarrow>
                (success, final_value, map (name_of idx) xs @ sub_chain))"
  using assms
proof (induction xs arbitrary: visited)
  case Nil
  then show ?case by (simp add: split_beta)
next
  case (Cons x xs)
  have step: "follows_alias idx mode_id x (hd (xs @ [y]))"
    using Cons.prems(1) by (cases xs) simp_all
  have fresh: "x \<notin> visited" using Cons.prems(3) by simp
  have "resolve_alias_chain idx (hd (xs @ [y])) mode_id (insert x visited) =
          (case resolve_alias_chain idx y mode_id (insert x visited \<union> set xs) of
             (success, final_value, sub_chain) \<Rightarrow>
               (success, final_value, map (name_of idx) xs @ sub_chain))"
  proof (rule Cons.IH)
    show "alias_path idx mode_id (xs @ [y])"
      using Cons.prems(1) by (cases xs) simp_all
    show "distinct xs" using Cons.prems(2) by simp
    show "set xs \<inter> insert x visited = {}" using Cons.prems(2,3) by auto
  qed
  moreover have "insert x visited \<union> set xs = visited \<union> set (x # xs)" by auto
  ultimately show ?case
    using resolve_follows_alias [OF step fresh] by (simp add: split_beta)
qed

lemma frames_refine:
  "card (fst ` set idx - visited) < frames \<Longrightarrow>
   resolve_alias_chain_frames frames idx variable_id mode_id visited
     = Inr (resolve_alias_chain idx variable_id mode_id visited)"
proof (induction frames arbitrary: variable_id visited)
  case 0
  then show ?case by simp
next
  case (Suc frames)
  show ?case
  proof (cases "variable_id \<in> visited")
    case True
    then show ?thesis by simp
  next
    case fresh: False
    show ?thesis
    proof (cases "map_of idx variable_id")
      case None
      with fresh show ?thesis by simp
    next
      case (Some variable)
      from card_unvisited_less [OF Some fresh] Suc.prems
      have "card (fst ` set idx - insert variable_id visited) < frames" by simp
      from Suc.IH [OF this]
      have IH: "resolve_alias_chain_frames frames idx target mode_id (insert variable_id visited)
                  = Inr (resolve_alias_chain idx target mode_id (insert variable_id visited))"
        for target .
      show ?thesis
        using fresh Some IH
        by (simp add: Let_def split_beta split: option.splits mode_value.splits)
    qed
  qed
qed


lemma frames_follows_alias:
  assumes "follows_alias idx mode_id x y" and "x \<notin> visited"
  shows "resolve_alias_chain_frames (Suc frames) idx x mode_id visited =
           (case resolve_alias_chain_frames frames idx y mode_id (insert x visited) of
              Inl raised \<Rightarrow> Inl raised
            | Inr (success, final_value, sub_chain) \<Rightarrow>
                Inr (success, final_value, name_of idx x # sub_chain))"
  using assms
  by (auto simp: follows_alias_def name_of_def Let_def split: option.splits sum.splits)

lemma frames_exhausted:
  assumes "alias_path idx mode_id (xs @ [y])"
    and "distinct xs"
    and "set xs \<inter> visited = {}"
    and "frames \<le> length xs"
  shows "resolve_alias_chain_frames frames idx (hd (xs @ [y])) mode_id visited
           = Inl RecursionError"
  using assms
proof (induction xs arbitrary: frames visited)
  case Nil
  then show ?case by simp
next
  case (Cons x xs)
  show ?case
  proof (cases frames)
    case 0
    then show ?thesis by simp
  next
    case (Suc k)
    have step: "follows_alias idx mode_id x (hd (xs @ [y]))"
      using Cons.prems(1) by (cases xs) simp_all
    have fresh: "x \<notin> visited" using Cons.prems(3) by simp
    have "resolve_alias_chain_frames k idx (hd (xs @ [y])) mode_id (insert x visited)
            = Inl RecursionError"
    proof (rule Cons.IH)
      show "alias_path idx mode_id (xs @ [y])" using Cons.prems(1) by (cases xs) simp_all
      show "distinct xs" using Cons.prems(2) by simp
      show "set xs \<inter> insert x visited = {}" using Cons.prems(2,3) by auto
      show "k \<le> length xs" using Cons.prems(4) Suc by simp
    qed
    with frames_follows_alias [OF step fresh, of k] Suc show ?thesis by simp
  qed
qed

lemma frames_along_path:
  assumes "alias_path idx mode_id (xs @ [y])"
    and "distinct xs"
    and "set xs \<inter> visited = {}"
  shows "resolve_alias_chain_frames (length xs + frames) idx (hd (xs @ [y])) mode_id visited =
           (case resolve_alias_chain_frames frames idx y mode_id (visited \<union> set xs) of
              Inl raised \<Rightarrow> Inl raised
            | Inr (success, final_value, sub_chain) \<Rightarrow>
                Inr (success, final_value, map (name_of idx) xs @ sub_chain))"
  using assms
proof (induction xs arbitrary: visited)
  case Nil
  then show ?case by (simp split: sum.splits)
next
  case (Cons x xs)
  have step: "follows_alias idx mode_id x (hd (xs @ [y]))"
    using Cons.prems(1) by (cases xs) simp_all
  have fresh: "x \<notin> visited" using Cons.prems(3) by simp
  have "resolve_alias_chain_frames (length xs + frames) idx (hd (xs @ [y])) mode_id
          (insert x visited) =
          (case resolve_alias_chain_frames frames idx y mode_id (insert x visited \<union> set xs) of
             Inl raised \<Rightarrow> Inl raised
           | Inr (success, final_value, sub_chain) \<Rightarrow>
               Inr (success, final_value, map (name_of idx) xs @ sub_chain))"
  proof (rule Cons.IH)
    show "alias_path idx mode_id (xs @ [y])" using Cons.prems(1) by (cases xs) simp_all
    show "distinct xs" using Cons.prems(2) by simp
    show "set xs \<inter> insert x visited = {}" using Cons.prems(2,3) by auto
  qed
  moreover have "insert x visited \<union> set xs = visited \<union> set (x # xs)" by auto
  ultimately show ?case
    using frames_follows_alias [OF step fresh, of "length xs + frames"]
    by (simp split: sum.splits)
qed
















text \<open>
  C3. Whenever the resolver, after following any number of local aliases, stands at a
  variable whose value for the mode is an alias to an id containing \<open>/\<close>, it returns the
  external-reference failure. Nothing is assumed about the target: the result is the
  same whether or not the index has an entry for it, and it differs from the not-found
  failure that a lookup of an absent target would have produced.
\<close>

theorem external_reference_without_lookup:
  assumes "alias_path idx mode_id (xs @ [y])"
    and "distinct (xs @ [y])"
    and "set (xs @ [y]) \<inter> visited = {}"
    and "map_of idx y = Some variable"
    and "map_of (valuesByMode variable) mode_id = Some (VariableAlias target)"
    and "CHR ''/'' \<in> set target"
  shows "resolve_alias_chain idx (hd (xs @ [y])) mode_id visited
           = (False, None,
              map (name_of idx) xs @ [v_name variable, ''EXTERNAL_REF: '' @ target])
         \<and> resolve_alias_chain idx (hd (xs @ [y])) mode_id visited
           \<noteq> (False, None,
              map (name_of idx) xs @ [v_name variable, ''NOT_FOUND: '' @ target])"
proof -
  have "y \<notin> visited \<union> set xs" using assms(2,3) by auto
  then have "resolve_alias_chain idx y mode_id (visited \<union> set xs)
               = (False, None, [v_name variable, ''EXTERNAL_REF: '' @ target])"
    using assms(4,5,6) by (simp add: Let_def)
  moreover have "alias_path idx mode_id (xs @ [y])" "distinct xs" "set xs \<inter> visited = {}"
    using assms(1,2,3) by auto
  ultimately show ?thesis
    using resolve_along_path [of idx mode_id xs y visited] by simp
qed

theorem external_reference_without_lookup_witness:
  "map_of cycle_index ''VariableID:abc123/7:9'' = None
   \<and> resolve_alias_chain cycle_index ''VariableID:1:3'' ''m0'' {}
       = (False, None, [''Jio/E'', ''EXTERNAL_REF: VariableID:abc123/7:9''])"
  using external_reference_without_lookup
          [of cycle_index "''m0''" "[]" "''VariableID:1:3''" "{}" var_E
              "''VariableID:abc123/7:9''"]
  by (simp add: cycle_index_def var_A_def var_B_def var_E_def)

text \<open>
  C4, with the call stack. Let \<open>v # rest\<close> be distinct ids such that, in the given mode,
  the resolver follows an alias from each to the next and from the last back to \<open>v\<close>: a
  cycle through \<open>v\<close>. Started at \<open>v\<close> with nothing visited and with room for more nested
  calls than the cycle has variables, \<open>resolve_alias_chain\<close> returns the failure whose path
  is the names of \<open>v # rest\<close>, one entry per variable, followed by the circular marker
  for \<open>v\<close>. The path holds names, not ids: the name of \<open>v\<close> occurs in it as often as
  there are variables on the cycle bearing that name, hence exactly once when no other
  variable on the cycle shares it. With room for no more calls than the cycle has
  variables, the call raises \<open>RecursionError\<close> instead.
\<close>

theorem circular_failure_on_cycle:
  assumes "alias_path idx mode_id (v # rest @ [v])"
    and "distinct (v # rest)"
  shows "(length (v # rest) < frames \<longrightarrow>
           (\<exists>path. resolve_alias_chain_frames frames idx v mode_id {}
                      = Inr (False, None, path @ [''CIRCULAR: '' @ v])
                  \<and> path = map (name_of idx) (v # rest)
                  \<and> count_list path (name_of idx v)
                      = length (filter (\<lambda>x. name_of idx x = name_of idx v) (v # rest))
                  \<and> ((\<forall>x \<in> set rest. name_of idx x \<noteq> name_of idx v) \<longrightarrow>
                       count_list path (name_of idx v) = 1)))
         \<and> (frames \<le> length (v # rest) \<longrightarrow>
              resolve_alias_chain_frames frames idx v mode_id {} = Inl RecursionError)"
proof (intro conjI impI)
  assume deep: "length (v # rest) < frames"
  define k where "k = frames - Suc (length (v # rest))"
  have k: "frames = length (v # rest) + Suc k"
    using deep by (simp add: k_def)
  have path: "alias_path idx mode_id ((v # rest) @ [v])" using assms(1) by simp
  have fresh: "set (v # rest) \<inter> {} = {}" by simp
  have start: "hd ((v # rest) @ [v]) = v" by simp
  have last: "resolve_alias_chain_frames (Suc k) idx v mode_id ({} \<union> set (v # rest))
          = Inr (False, None, [''CIRCULAR: '' @ v])"
    by simp
  have "resolve_alias_chain_frames (length (v # rest) + Suc k) idx (hd ((v # rest) @ [v]))
          mode_id {}
          = Inr (False, None, map (name_of idx) (v # rest) @ [''CIRCULAR: '' @ v])"
    unfolding frames_along_path [OF path assms(2) fresh, of "Suc k"] last
    by (simp only: sum.case prod.case)
  then have res: "resolve_alias_chain_frames frames idx v mode_id {}
               = Inr (False, None, map (name_of idx) (v # rest) @ [''CIRCULAR: '' @ v])"
    unfolding k start .
  have cnt: "count_list (map f xs) (f v) = length (filter (\<lambda>x. f x = f v) xs)"
    for f :: "string \<Rightarrow> string" and xs
    by (induction xs) simp_all
  have uniq: "count_list (map (name_of idx) (v # rest)) (name_of idx v) = 1"
    if "\<forall>x \<in> set rest. name_of idx x \<noteq> name_of idx v"
    using that by (auto simp: count_list_0_iff)
  show "\<exists>path. resolve_alias_chain_frames frames idx v mode_id {}
                      = Inr (False, None, path @ [''CIRCULAR: '' @ v])
                  \<and> path = map (name_of idx) (v # rest)
                  \<and> count_list path (name_of idx v)
                      = length (filter (\<lambda>x. name_of idx x = name_of idx v) (v # rest))
                  \<and> ((\<forall>x \<in> set rest. name_of idx x \<noteq> name_of idx v) \<longrightarrow>
                       count_list path (name_of idx v) = 1)"
  proof (intro exI conjI impI)
    show "resolve_alias_chain_frames frames idx v mode_id {}
            = Inr (False, None, map (name_of idx) (v # rest) @ [''CIRCULAR: '' @ v])"
      by (rule res)
    show "map (name_of idx) (v # rest) = map (name_of idx) (v # rest)" by (rule refl)
    show "count_list (map (name_of idx) (v # rest)) (name_of idx v)
            = length (filter (\<lambda>x. name_of idx x = name_of idx v) (v # rest))"
      by (rule cnt)
    show "count_list (map (name_of idx) (v # rest)) (name_of idx v) = 1"
      if "\<forall>x \<in> set rest. name_of idx x \<noteq> name_of idx v"
      using that by (rule uniq)
  qed
next
  assume shallow: "frames \<le> length (v # rest)"
  have path: "alias_path idx mode_id ((v # rest) @ [v])" using assms(1) by simp
  have fresh: "set (v # rest) \<inter> {} = {}" by simp
  have start: "hd ((v # rest) @ [v]) = v" by simp
  from frames_exhausted [OF path assms(2) fresh shallow]
  show "resolve_alias_chain_frames frames idx v mode_id {} = Inl RecursionError"
    unfolding start .
qed

lemma cycle_index_path:
  "alias_path cycle_index ''m0'' [''VariableID:1:1'', ''VariableID:1:2'', ''VariableID:1:1'']
   \<and> name_of cycle_index ''VariableID:1:1'' = ''Jio/A''
   \<and> name_of cycle_index ''VariableID:1:2'' = ''Jio/B''"
  by (simp add: cycle_index_def var_A_def var_B_def var_E_def follows_alias_def name_of_def)

theorem circular_failure_on_cycle_witness:
  "resolve_alias_chain_frames 1000 cycle_index ''VariableID:1:1'' ''m0'' {}
       = Inr (False, None, [''Jio/A'', ''Jio/B'', ''CIRCULAR: VariableID:1:1''])
   \<and> count_list [''Jio/A'', ''Jio/B''] ''Jio/A'' = 1
   \<and> resolve_alias_chain_frames 2 cycle_index ''VariableID:1:1'' ''m0'' {} = Inl RecursionError"
proof -
  have path: "alias_path cycle_index ''m0''
                (''VariableID:1:1'' # [''VariableID:1:2''] @ [''VariableID:1:1''])"
    using cycle_index_path by simp
  have dist: "distinct (''VariableID:1:1'' # [''VariableID:1:2''])" by simp
  from circular_failure_on_cycle [OF path dist, of 1000]
  have "resolve_alias_chain_frames 1000 cycle_index ''VariableID:1:1'' ''m0'' {}
          = Inr (False, None,
                 map (name_of cycle_index) [''VariableID:1:1'', ''VariableID:1:2'']
                 @ [''CIRCULAR: VariableID:1:1''])"
    by simp
  moreover from circular_failure_on_cycle [OF path dist, of 2]
  have "resolve_alias_chain_frames 2 cycle_index ''VariableID:1:1'' ''m0'' {}
          = Inl RecursionError"
    by simp
  ultimately show ?thesis using cycle_index_path by simp
qed

lemma same_name_unbounded:
  "resolve_alias_chain same_name_index ''VariableID:3:1'' ''m0'' {}
     = (False, None, [''Jio/X'', ''Jio/X'', ''CIRCULAR: VariableID:3:1''])"
  by (simp add: same_name_index_def var_T1_def var_T2_def)

text \<open>
  Two variables of the same name aliasing each other: the name of the start variable
  stands twice in the path before the marker.
\<close>

theorem same_name_cycle_counterexample:
  "resolve_alias_chain_frames 1000 same_name_index ''VariableID:3:1'' ''m0'' {}
     = Inr (False, None, [''Jio/X'', ''Jio/X'', ''CIRCULAR: VariableID:3:1''])
   \<and> v_name var_T1 = ''Jio/X''
   \<and> count_list [''Jio/X'', ''Jio/X''] (v_name var_T1) = 2"
proof -
  have "card (fst ` set same_name_index - {}) < 1000"
    by (simp add: same_name_index_def)
  from frames_refine [OF this, of "''VariableID:3:1''" "''m0''"] same_name_unbounded
  show ?thesis by (simp add: var_T1_def)
qed

section \<open>Properties of the validation report\<close>

lemma successful_value_is_color:
  "fst (resolve_alias_chain idx variable_id mode_id visited) \<Longrightarrow>
   \<exists>cr cg cb ca. fst (snd (resolve_alias_chain idx variable_id mode_id visited))
                     = Some (Color cr cg cb ca)"
proof (induction idx variable_id mode_id visited rule: resolve_alias_chain.induct)
  case (1 idx variable_id mode_id visited)
  from "1.prems" have fresh: "variable_id \<notin> visited"
    by (cases "variable_id \<in> visited") simp_all
  from "1.prems" fresh obtain variable where found: "map_of idx variable_id = Some variable"
    by (cases "map_of idx variable_id") simp_all
  from "1.prems" fresh found obtain v where val: "map_of (valuesByMode variable) mode_id = Some v"
    by (cases "map_of (valuesByMode variable) mode_id") (simp_all add: Let_def)
  show ?case
  proof (cases v)
    case (Color cr cg cb ca)
    with fresh found val show ?thesis by (simp add: Let_def)
  next
    case (OtherValue t ty)
    with "1.prems" fresh found val show ?thesis by (simp add: Let_def split: if_splits)
  next
    case (VariableAlias target)
    with "1.prems" fresh found val have local: "CHR ''/'' \<notin> set target"
      by (cases "CHR ''/'' \<in> set target") (simp_all add: Let_def)
    with "1.prems" fresh found val VariableAlias
    have "fst (resolve_alias_chain idx target mode_id (insert variable_id visited))"
      by (simp add: Let_def split_beta)
    from "1.IH" [OF fresh refl found refl val VariableAlias local this]
    show ?thesis
      using fresh found val VariableAlias local by (simp add: Let_def split_beta)
  qed
qed

lemma validate_variable_counters:
  assumes "counters_agree results"
  shows "counters_agree (validate_variable idx mode_id variable results)"
proof -
  obtain success final_value chain_path
    where res: "resolve_alias_chain idx (v_id variable) mode_id {}
                  = (success, final_value, chain_path)"
    by (metis prod_cases3)
  show ?thesis
  proof (cases success)
    case True
    with res successful_value_is_color [of idx "v_id variable" mode_id "{}"]
    obtain cr cg cb ca where "final_value = Some (Color cr cg cb ca)" by auto
    with assms res True show ?thesis
      by (simp add: validate_variable_def count_color_def counters_agree_def Let_def)
  next
    case False
    with assms res show ?thesis
      by (simp add: validate_variable_def classify_broken_def counters_agree_def Let_def)
  qed
qed

lemma fold_validate_variable_counters:
  "counters_agree results \<Longrightarrow>
   counters_agree (fold (validate_variable idx mode_id) vars results)"
  by (induction vars arbitrary: results) (simp_all add: validate_variable_counters)

text \<open>
  C9. For every document and collection name, the report of \<open>validate_collection\<close>
  satisfies: \<open>total_variables\<close> is \<open>valid_chains\<close> plus \<open>broken_chains\<close>, and
  \<open>valid_chains\<close> is \<open>white_colors\<close> plus \<open>proper_colors\<close>. This covers the two
  early returns (collection not found, no modes), where every counter is zero.
\<close>

theorem validation_counters_partition:
  "total_variables (validate_collection data name)
     = valid_chains (validate_collection data name)
       + broken_chains (validate_collection data name)
   \<and> valid_chains (validate_collection data name)
     = white_colors (validate_collection data name)
       + proper_colors (validate_collection data name)"
proof -
  have init: "counters_agree (initial_results name)"
    by (simp add: counters_agree_def initial_results_def)
  have "counters_agree (validate_collection data name)"
  proof (cases "find (\<lambda>coll. c_name coll = name) (collections data)")
    case None
    with init show ?thesis
      by (simp add: validate_collection_def counters_agree_def)
  next
    case (Some collection)
    show ?thesis
    proof (cases "modes collection")
      case Nil
      with Some init show ?thesis
        by (simp add: validate_collection_def counters_agree_def)
    next
      case (Cons first_mode more)
      with Some init show ?thesis
        by (simp add: validate_collection_def fold_validate_variable_counters)
    qed
  qed
  then show ?thesis by (simp add: counters_agree_def)
qed

lemma theme_report:
  "validate_collection theme_document ''9 Theme'' =
     \<lparr>collection_name = ''9 Theme'', total_variables = 6, valid_chains = 3,
      broken_chains = 3, circular_refs = 2, external_refs = 1,
      white_colors = 2, proper_colors = 1,
      broken_examples =
        [(''Jio/A'', ''Jio/A -> Jio/B -> CIRCULAR: VariableID:1:1''),
         (''Jio/B'', ''Jio/B -> Jio/A -> CIRCULAR: VariableID:1:2''),
         (''Jio/E'', ''Jio/E -> EXTERNAL_REF: VariableID:abc123/7:9'')],
      error = None\<rparr>"
  by code_simp

theorem validation_counters_partition_witness:
  "total_variables (validate_collection theme_document ''9 Theme'') = 3 + 3
   \<and> valid_chains (validate_collection theme_document ''9 Theme'') = 2 + 1"
  using validation_counters_partition [of theme_document "''9 Theme''"]
  by (simp add: theme_report)

section \<open>Independence of sibling branches\<close>






section \<open>Properties of the repair passes\<close>

subsection \<open>Association lists under update\<close>

lemma fold_update_keys:
  "set ks \<subseteq> fst ` set al \<Longrightarrow>
   map fst (fold (\<lambda>k acc. AList.update k new acc) ks al) = map fst al"
proof (induction ks arbitrary: al)
  case Nil
  show ?case by simp
next
  case (Cons k ks)
  then have keys: "map fst (AList.update k new al) = map fst al"
    by (simp add: update_keys)
  then have "set ks \<subseteq> fst ` set (AList.update k new al)"
    using Cons.prems by (metis list.set_map set_subset_Cons subset_trans)
  from Cons.IH [OF this] keys show ?case by simp
qed

lemma fold_update_map_of:
  "map_of (fold (\<lambda>k acc. AList.update k new acc) ks al) k'
     = (if k' \<in> set ks then Some new else map_of al k')"
  by (induction ks arbitrary: al) (auto simp: update_conv')

lemma overwrite_all_modes_keys:
  "map fst (overwrite_all_modes new vbm) = map fst vbm"
  unfolding overwrite_all_modes_def by (rule fold_update_keys) simp

lemma overwrite_all_modes_lookup:
  "map_of (overwrite_all_modes new vbm) k = (if k \<in> fst ` set vbm then Some new else None)"
  unfolding overwrite_all_modes_def
  by (simp add: fold_update_map_of map_of_eq_None_iff)

subsection \<open>The loop bodies\<close>

lemma fix_variable_v1_cases:
  "fst (fix_variable_v1 tbl var stats) =
     (if selected_external var
      then (case get_rgb_for_variable (v_name var) tbl of
              None \<Rightarrow> var
            | Some (cr, cg, cb) \<Rightarrow>
                var\<lparr>valuesByMode :=
                      overwrite_all_modes
                        (Color cr cg cb (get_alpha_for_weight (split_on CHR ''/'' (v_name var) ! 2)))
                        (valuesByMode var)\<rparr>)
      else var)"
  by (auto simp: fix_variable_v1_def selected_external_def Let_def split: option.splits)

lemma fix_variable_v2_cases:
  "fst (fix_variable_v2 var stats) =
     (if selected_external var
      then (case (case py_int (split_on CHR ''/'' (v_name var) ! 1) of
                    Some value_num \<Rightarrow>
                      if 2100 \<le> value_num then (1, 1, 1)
                      else get_rgb_for_color (split_on CHR ''/'' (v_name var) ! 0)
                  | None \<Rightarrow> get_rgb_for_color (split_on CHR ''/'' (v_name var) ! 0)) of
              (cr, cg, cb) \<Rightarrow>
                var\<lparr>valuesByMode :=
                      overwrite_all_modes
                        (Color cr cg cb (get_alpha_for_weight (split_on CHR ''/'' (v_name var) ! 2)))
                        (valuesByMode var)\<rparr>)
      else var)"
  by (auto simp: fix_variable_v2_def selected_external_def Let_def split: option.splits prod.splits)

lemma get_rgb_for_variable_Some:
  "2 \<le> length (split_on CHR ''/'' name) \<Longrightarrow> \<exists>rgb. get_rgb_for_variable name tbl = Some rgb"
  by (simp add: get_rgb_for_variable_def GREY_RGB_def Let_def split: option.splits)

lemma run_variables_fst:
  assumes "\<And>var stats. fst (body var stats) = change var"
  shows "fst (run_variables body vars stats) = map change vars"
proof (induction vars arbitrary: stats)
  case Nil
  show ?case by simp
next
  case (Cons var vars)
  obtain var' stats' where res: "body var stats = (var', stats')" by (cases "body var stats")
  with assms [of var stats] have "var' = change var" by simp
  with res Cons.IH [of stats'] show ?case by (simp add: split_beta)
qed

lemma rewrite_first_rel:
  assumes "\<And>x. R x x" and "\<And>x. p x \<Longrightarrow> R x (f x)"
  shows "list_all2 R xs (rewrite_first p f xs)"
  by (induction xs) (auto simp: assms list_all2_refl)


lemma fix_white_value_only_white:
  "\<not> is_white value \<Longrightarrow> fix_white_value pal pn st value = None"
  by (cases "value") (auto simp: fix_white_value_def is_white_def)

lemma update_in_place:
  "k \<notin> fst ` set xs \<Longrightarrow> AList.update k v (xs @ (k, w) # ys) = xs @ (k, v) # ys"
  by (induction xs) auto

lemma fold_white_values:
  assumes "distinct (map fst (pre @ todo))"
  shows "fst (fold (\<lambda>(mode_id, mode_value) (values_by_mode, fixed_count).
                      case change mode_value of
                        None \<Rightarrow> (values_by_mode, fixed_count)
                      | Some new \<Rightarrow> (AList.update mode_id new values_by_mode, fixed_count + 1))
                   todo (pre @ todo, n :: nat))
           = pre @ map (\<lambda>(mode_id, mode_value).
                           (mode_id, case change mode_value of None \<Rightarrow> mode_value
                                                             | Some new \<Rightarrow> new)) todo"
  using assms
proof (induction todo arbitrary: pre n)
  case Nil
  show ?case by simp
next
  case (Cons item todo)
  obtain k v where item: "item = (k, v)" by (cases item)
  have fresh: "k \<notin> fst ` set pre" using Cons.prems item by auto
  show ?case
  proof (cases "change v")
    case None
    have "distinct (map fst ((pre @ [(k, v)]) @ todo))" using Cons.prems item by simp
    from Cons.IH [OF this, of n] None item show ?thesis by simp
  next
    case (Some new)
    have "distinct (map fst ((pre @ [(k, new)]) @ todo))" using Cons.prems item by simp
    from Cons.IH [OF this, of "n + 1"] Some item update_in_place [OF fresh, of new v todo]
    show ?thesis by simp
  qed
qed

lemma fold_white_keys:
  "fst ` set todo \<subseteq> fst ` set acc \<Longrightarrow>
   map fst (fst (fold (\<lambda>(mode_id, mode_value) (values_by_mode, fixed_count).
                      case change mode_value of
                        None \<Rightarrow> (values_by_mode, fixed_count)
                      | Some new \<Rightarrow> (AList.update mode_id new values_by_mode, fixed_count + 1))
                   todo (acc, n :: nat)))
     = map fst acc"
proof (induction todo arbitrary: acc n)
  case Nil
  show ?case by simp
next
  case (Cons item todo)
  obtain k v where item: "item = (k, v)" by (cases item)
  show ?case
  proof (cases "change v")
    case None
    with Cons item show ?thesis by simp
  next
    case (Some new)
    have keys: "map fst (AList.update k new acc) = map fst acc"
      using Cons.prems item by (simp add: update_keys)
    then have "fst ` set todo \<subseteq> fst ` set (AList.update k new acc)"
      using Cons.prems by (metis list.set_map set_subset_Cons image_mono subset_trans)
    from Cons.IH [OF this, of "n + 1"] keys Some item show ?thesis by simp
  qed
qed

lemma fold_white_unchanged:
  "\<forall>(mode_id, mode_value) \<in> set todo. change mode_value = None \<Longrightarrow>
   fold (\<lambda>(mode_id, mode_value) (values_by_mode, fixed_count).
                      case change mode_value of
                        None \<Rightarrow> (values_by_mode, fixed_count)
                      | Some new \<Rightarrow> (AList.update mode_id new values_by_mode, fixed_count + 1))
                   todo (acc, n :: nat) = (acc, n)"
  by (induction todo arbitrary: acc n) auto

lemma fix_white_variable_identity:
  "same_variable_identity var (fst (fix_white_variable pal var))"
proof -
  obtain pn st where info: "extract_color_info_from_name (v_name var) = (pn, st)"
    by (cases "extract_color_info_from_name (v_name var)")
  show ?thesis
    using fold_white_keys [of "valuesByMode var" "valuesByMode var"
                              "fix_white_value pal pn st" 0]
    by (simp add: fix_white_variable_def info same_variable_identity_def split_beta)
qed

lemma fix_white_variable_unselected:
  assumes "\<not> has_white var"
  shows "fst (fix_white_variable pal var) = var"
proof -
  obtain pn st where info: "extract_color_info_from_name (v_name var) = (pn, st)"
    by (cases "extract_color_info_from_name (v_name var)")
  have "\<forall>(mode_id, mode_value) \<in> set (valuesByMode var).
          fix_white_value pal pn st mode_value = None"
    using assms by (auto simp: has_white_def list_ex_iff fix_white_value_only_white)
  from fold_white_unchanged [OF this, of "valuesByMode var" 0]
  show ?thesis by (simp add: fix_white_variable_def info)
qed

lemma fix_white_variable_values:
  assumes "distinct (map fst (valuesByMode var))"
    and "extract_color_info_from_name (v_name var) = (pn, st)"
  shows "valuesByMode (fst (fix_white_variable pal var))
           = map (\<lambda>(mode_id, mode_value).
                    (mode_id, case fix_white_value pal pn st mode_value of
                                None \<Rightarrow> mode_value | Some new \<Rightarrow> new))
                 (valuesByMode var)"
  using fold_white_values [of "[]" "valuesByMode var" "fix_white_value pal pn st" 0] assms
  by (simp add: fix_white_variable_def split_beta)


subsection \<open>The passes as maps over the document\<close>

lemma find_rewrite_first:
  assumes "\<And>x. p x \<Longrightarrow> p (f x)"
  shows "find p (rewrite_first p f xs) = map_option f (find p xs)"
  by (induction xs) (auto simp: assms)

lemma rewrite_first_none:
  "\<forall>x \<in> set xs. \<not> p x \<Longrightarrow> rewrite_first p f xs = xs"
  by (induction xs) auto

lemma external_v1_collections:
  "collections (fst (fix_external_references data)) =
     rewrite_first (\<lambda>coll. c_name coll = ''00_Semi semantics'')
       (\<lambda>coll. coll\<lparr>variables :=
                  map (\<lambda>var. fst (fix_variable_v1
                                     (case find (\<lambda>coll. c_name coll = ''00_Semi semantics'')
                                             (collections data) of
                                        None \<Rightarrow> [] | Some c \<Rightarrow> extract_rgb_values_from_working_vars c)
                                     var no_stats))
                      (variables coll)\<rparr>)
       (collections data)"
proof (cases "find (\<lambda>coll. c_name coll = ''00_Semi semantics'') (collections data)")
  case None
  then have "\<forall>coll \<in> set (collections data). c_name coll \<noteq> ''00_Semi semantics''"
    by (simp add: find_None_iff)
  then have "rewrite_first (\<lambda>coll. c_name coll = ''00_Semi semantics'') f (collections data)
               = collections data" for f
    by (rule rewrite_first_none)
  with None show ?thesis by (simp add: fix_external_references_def)
next
  case (Some c)
  have "fst (run_variables (fix_variable_v1 tbl) vars no_stats)
          = map (\<lambda>var. fst (fix_variable_v1 tbl var no_stats)) vars" for tbl vars
    by (rule run_variables_fst) (simp add: fix_variable_v1_cases)
  with Some show ?thesis by (simp add: fix_external_references_def Let_def)
qed


lemma external_v2_collections:
  "collections (fst (fix_external_references_v2 data)) =
     rewrite_first (\<lambda>coll. c_name coll = ''00_Semi semantics'')
       (\<lambda>coll. coll\<lparr>variables :=
                  map (\<lambda>var. fst (fix_variable_v2 var no_stats)) (variables coll)\<rparr>)
       (collections data)"
proof (cases "find (\<lambda>coll. c_name coll = ''00_Semi semantics'') (collections data)")
  case None
  then have "\<forall>coll \<in> set (collections data). \<not> c_name coll = ''00_Semi semantics''"
    by (simp add: find_None_iff)
  then have "rewrite_first (\<lambda>coll. c_name coll = ''00_Semi semantics'') f (collections data)
               = collections data" for f
    by (rule rewrite_first_none)
  with None show ?thesis by (simp add: fix_external_references_v2_def)
next
  case (Some c)
  have "fst (run_variables fix_variable_v2 vars no_stats)
          = map (\<lambda>var. fst (fix_variable_v2 var no_stats)) vars" for vars
    by (rule run_variables_fst) (simp add: fix_variable_v2_cases)
  with Some show ?thesis by (simp add: fix_external_references_v2_def)
qed

lemma white_collections:
  "collections (fst (fix_all_white_colors data pal)) =
     map (\<lambda>coll. coll\<lparr>variables := map (\<lambda>var. fst (fix_white_variable pal var)) (variables coll)\<rparr>)
         (collections data)"
  by (simp add: fix_all_white_colors_def Let_def comp_def)

lemma fix_variable_v1_identity:
  "same_variable_identity var (fst (fix_variable_v1 tbl var stats))"
  by (simp add: fix_variable_v1_cases same_variable_identity_def overwrite_all_modes_keys
           split: option.splits prod.splits)

lemma fix_variable_v2_identity:
  "same_variable_identity var (fst (fix_variable_v2 var stats))"
  by (simp add: fix_variable_v2_cases same_variable_identity_def overwrite_all_modes_keys
           split: option.splits prod.splits)

lemma fix_variable_v1_unselected:
  "\<not> selected_external var \<Longrightarrow> fst (fix_variable_v1 tbl var stats) = var"
  by (simp add: fix_variable_v1_cases)

lemma fix_variable_v2_unselected:
  "\<not> selected_external var \<Longrightarrow> fst (fix_variable_v2 var stats) = var"
  by (simp add: fix_variable_v2_cases)

lemma fix_variable_v1_skips_semi:
  "str_contains ''[Semi semantics]'' (v_name var) \<Longrightarrow>
   fst (fix_variable_v1 tbl var stats) = var"
  by (simp add: fix_variable_v1_unselected selected_external_def)

lemma fix_variable_v2_skips_semi:
  "str_contains ''[Semi semantics]'' (v_name var) \<Longrightarrow>
   fst (fix_variable_v2 var stats) = var"
  by (simp add: fix_variable_v2_unselected selected_external_def)

lemma same_variable_identity_refl: "same_variable_identity var var"
  by (simp add: same_variable_identity_def)

lemma same_collection_identity_refl: "same_collection_identity coll coll"
  by (simp add: same_collection_identity_def list_all2_same same_variable_identity_refl)

text \<open>
  C6. Each of the three passes returns a document with the same collections in the same
  order; every collection keeps its id, name and modes and the list of its variables,
  every variable keeps its id, name, resolved type and the list of its mode ids; and a
  variable the pass does not select (no white value for the white pass; not selected by
  name and foreign alias for the external-reference passes) is returned unchanged.
\<close>

theorem repair_is_value_local:
  "list_all2 (\<lambda>coll coll'.
                same_collection_identity coll coll'
                \<and> list_all2 (\<lambda>var var'. \<not> has_white var \<longrightarrow> var' = var)
                     (variables coll) (variables coll'))
     (collections data) (collections (fst (fix_all_white_colors data rangde_palettes_rgb)))
   \<and> list_all2 (\<lambda>coll coll'.
                same_collection_identity coll coll'
                \<and> list_all2 (\<lambda>var var'. \<not> selected_external var \<longrightarrow> var' = var)
                     (variables coll) (variables coll'))
     (collections data) (collections (fst (fix_external_references data)))
   \<and> list_all2 (\<lambda>coll coll'.
                same_collection_identity coll coll'
                \<and> list_all2 (\<lambda>var var'. \<not> selected_external var \<longrightarrow> var' = var)
                     (variables coll) (variables coll'))
     (collections data) (collections (fst (fix_external_references_v2 data)))"
proof (intro conjI)
  show "list_all2 (\<lambda>coll coll'.
                same_collection_identity coll coll'
                \<and> list_all2 (\<lambda>var var'. \<not> has_white var \<longrightarrow> var' = var)
                     (variables coll) (variables coll'))
     (collections data) (collections (fst (fix_all_white_colors data rangde_palettes_rgb)))"
    by (simp add: white_collections list_all2_map2 list_all2_same same_collection_identity_def
          fix_white_variable_identity fix_white_variable_unselected)
next
  let ?R = "\<lambda>coll coll'.
                same_collection_identity coll coll'
                \<and> list_all2 (\<lambda>var var'. \<not> selected_external var \<longrightarrow> var' = var)
                     (variables coll) (variables coll')"
  have refl: "?R coll coll" for coll
    by (simp add: same_collection_identity_refl list_all2_same)
  show "list_all2 ?R (collections data) (collections (fst (fix_external_references data)))"
    unfolding external_v1_collections
    by (rule rewrite_first_rel [where R = ?R, OF refl])
       (simp add: same_collection_identity_def list_all2_map2 list_all2_same
          fix_variable_v1_identity fix_variable_v1_unselected)
  show "list_all2 ?R (collections data) (collections (fst (fix_external_references_v2 data)))"
    unfolding external_v2_collections
    by (rule rewrite_first_rel [where R = ?R, OF refl])
       (simp add: same_collection_identity_def list_all2_map2 list_all2_same
          fix_variable_v2_identity fix_variable_v2_unselected)
qed

lemma repair_document_untouched:
  "\<not> has_white var_X \<and> \<not> selected_external var_S \<and> \<not> selected_external var_W
   \<and> variables (collections (fst (fix_all_white_colors repair_document example_palette)) ! 1) ! 1
       = var_X
   \<and> variables (collections (fst (fix_external_references repair_document)) ! 1) ! 0 = var_S
   \<and> variables (collections (fst (fix_external_references_v2 repair_document)) ! 1) ! 2 = var_W"
  by code_simp

theorem repair_is_value_local_witness:
  "(list_all2 (\<lambda>coll coll'.
                same_collection_identity coll coll'
                \<and> list_all2 (\<lambda>var var'. \<not> has_white var \<longrightarrow> var' = var)
                     (variables coll) (variables coll'))
     (collections repair_document)
     (collections (fst (fix_all_white_colors repair_document example_palette)))
   \<and> list_all2 (\<lambda>coll coll'.
                same_collection_identity coll coll'
                \<and> list_all2 (\<lambda>var var'. \<not> selected_external var \<longrightarrow> var' = var)
                     (variables coll) (variables coll'))
     (collections repair_document) (collections (fst (fix_external_references repair_document)))
   \<and> list_all2 (\<lambda>coll coll'.
                same_collection_identity coll coll'
                \<and> list_all2 (\<lambda>var var'. \<not> selected_external var \<longrightarrow> var' = var)
                     (variables coll) (variables coll'))
     (collections repair_document)
     (collections (fst (fix_external_references_v2 repair_document))))
   \<and> (\<not> has_white var_X \<and> \<not> selected_external var_S \<and> \<not> selected_external var_W
   \<and> variables (collections (fst (fix_all_white_colors repair_document example_palette)) ! 1) ! 1
       = var_X
   \<and> variables (collections (fst (fix_external_references repair_document)) ! 1) ! 0 = var_S
   \<and> variables (collections (fst (fix_external_references_v2 repair_document)) ! 1) ! 2 = var_W)"
  using repair_is_value_local [of repair_document example_palette] repair_document_untouched
  by (rule conjI)

text \<open>
  C10. Both versions of the external-reference pass return every collection whose name
  is not \<open>00_Semi semantics\<close> unchanged, and in every collection return unchanged each
  variable whose name contains \<open>[Semi semantics]\<close>.
\<close>

theorem external_pass_scope:
  "list_all2 (\<lambda>coll coll'.
                (c_name coll \<noteq> ''00_Semi semantics'' \<longrightarrow> coll' = coll)
                \<and> list_all2 (\<lambda>var var'.
                       str_contains ''[Semi semantics]'' (v_name var) \<longrightarrow> var' = var)
                     (variables coll) (variables coll'))
     (collections data) (collections (fst (fix_external_references data)))
   \<and> list_all2 (\<lambda>coll coll'.
                (c_name coll \<noteq> ''00_Semi semantics'' \<longrightarrow> coll' = coll)
                \<and> list_all2 (\<lambda>var var'.
                       str_contains ''[Semi semantics]'' (v_name var) \<longrightarrow> var' = var)
                     (variables coll) (variables coll'))
     (collections data) (collections (fst (fix_external_references_v2 data)))"
proof (intro conjI)
  let ?R = "\<lambda>coll coll'.
                (c_name coll \<noteq> ''00_Semi semantics'' \<longrightarrow> coll' = coll)
                \<and> list_all2 (\<lambda>var var'.
                       str_contains ''[Semi semantics]'' (v_name var) \<longrightarrow> var' = var)
                     (variables coll) (variables coll')"
  have refl: "?R coll coll" for coll
    by (simp add: list_all2_same)
  show "list_all2 ?R (collections data) (collections (fst (fix_external_references data)))"
    unfolding external_v1_collections
    by (rule rewrite_first_rel [where R = ?R, OF refl])
       (simp add: list_all2_map2 list_all2_same fix_variable_v1_skips_semi)
  show "list_all2 ?R (collections data) (collections (fst (fix_external_references_v2 data)))"
    unfolding external_v2_collections
    by (rule rewrite_first_rel [where R = ?R, OF refl])
       (simp add: list_all2_map2 list_all2_same fix_variable_v2_skips_semi)
qed


lemma repair_document_scope:
  "c_name (collections repair_document ! 0) \<noteq> ''00_Semi semantics''
   \<and> collections (fst (fix_external_references repair_document)) ! 0 = theme_collection
   \<and> collections (fst (fix_external_references_v2 repair_document)) ! 0 = theme_collection
   \<and> str_contains ''[Semi semantics]'' (v_name var_S)
   \<and> variables (collections (fst (fix_external_references repair_document)) ! 1) ! 0 = var_S
   \<and> variables (collections (fst (fix_external_references_v2 repair_document)) ! 1) ! 0 = var_S"
  by code_simp

theorem external_pass_scope_witness:
  "(list_all2 (\<lambda>coll coll'.
                (c_name coll \<noteq> ''00_Semi semantics'' \<longrightarrow> coll' = coll)
                \<and> list_all2 (\<lambda>var var'.
                       str_contains ''[Semi semantics]'' (v_name var) \<longrightarrow> var' = var)
                     (variables coll) (variables coll'))
     (collections repair_document) (collections (fst (fix_external_references repair_document)))
   \<and> list_all2 (\<lambda>coll coll'.
                (c_name coll \<noteq> ''00_Semi semantics'' \<longrightarrow> coll' = coll)
                \<and> list_all2 (\<lambda>var var'.
                       str_contains ''[Semi semantics]'' (v_name var) \<longrightarrow> var' = var)
                     (variables coll) (variables coll'))
     (collections repair_document)
     (collections (fst (fix_external_references_v2 repair_document))))
   \<and> (c_name (collections repair_document ! 0) \<noteq> ''00_Semi semantics''
   \<and> collections (fst (fix_external_references repair_document)) ! 0 = theme_collection
   \<and> collections (fst (fix_external_references_v2 repair_document)) ! 0 = theme_collection
   \<and> str_contains ''[Semi semantics]'' (v_name var_S)
   \<and> variables (collections (fst (fix_external_references repair_document)) ! 1) ! 0 = var_S
   \<and> variables (collections (fst (fix_external_references_v2 repair_document)) ! 1) ! 0 = var_S)"
  using external_pass_scope [of repair_document] repair_document_scope
  by (rule conjI)

subsection \<open>Which modes a repair overwrites\<close>

lemma fix_variable_v1_selected:
  assumes "selected_external var"
  shows "\<exists>cr cg cb. all_modes_are
           (Color cr cg cb (get_alpha_for_weight (split_on CHR ''/'' (v_name var) ! 2)))
           var (fst (fix_variable_v1 tbl var stats))"
proof -
  from assms have "2 \<le> length (split_on CHR ''/'' (v_name var))"
    by (simp add: selected_external_def)
  from get_rgb_for_variable_Some [OF this, of tbl]
  obtain cr cg cb where "get_rgb_for_variable (v_name var) tbl = Some (cr, cg, cb)"
    by (metis prod_cases3)
  with assms have "all_modes_are
           (Color cr cg cb (get_alpha_for_weight (split_on CHR ''/'' (v_name var) ! 2)))
           var (fst (fix_variable_v1 tbl var stats))"
    by (simp add: fix_variable_v1_cases all_modes_are_def overwrite_all_modes_keys
          overwrite_all_modes_lookup)
  then show ?thesis by blast
qed

lemma fix_variable_v2_selected:
  assumes "selected_external var"
  shows "\<exists>cr cg cb. all_modes_are
           (Color cr cg cb (get_alpha_for_weight (split_on CHR ''/'' (v_name var) ! 2)))
           var (fst (fix_variable_v2 var stats))"
proof -
  obtain cr cg cb where
    "(case py_int (split_on CHR ''/'' (v_name var) ! 1) of
        Some value_num \<Rightarrow>
          if 2100 \<le> value_num then (1, 1, 1)
          else get_rgb_for_color (split_on CHR ''/'' (v_name var) ! 0)
      | None \<Rightarrow> get_rgb_for_color (split_on CHR ''/'' (v_name var) ! 0)) = (cr, cg, cb)"
    by (metis prod_cases3)
  with assms have "all_modes_are
           (Color cr cg cb (get_alpha_for_weight (split_on CHR ''/'' (v_name var) ! 2)))
           var (fst (fix_variable_v2 var stats))"
    by (simp add: fix_variable_v2_cases all_modes_are_def overwrite_all_modes_keys
          overwrite_all_modes_lookup)
  then show ?thesis by blast
qed

lemma search_step_nonempty: "search_step name = Some st \<Longrightarrow> st \<noteq> []"
  by (induction name) (auto simp: Let_def split: if_splits)

lemma match_family_step_nonempty:
  "match_family_step stop name = Some (family, step) \<Longrightarrow> family \<noteq> [] \<and> step \<noteq> []"
  by (auto simp: match_family_step_def Let_def split: if_splits list.splits)

lemma known_palette_nonempty:
  "find p known_palettes = Some palette \<Longrightarrow> palette \<noteq> []"
  by (auto simp: known_palettes_def split: if_splits)

lemma extract_color_info_nonempty:
  assumes "extract_color_info_from_name name = (Some pn, Some st)"
  shows "pn \<noteq> [] \<and> st \<noteq> []"
proof (cases "match_family_step (\<lambda>e. e = CHR ''/'') name")
  case (Some fs)
  obtain family step where fs: "fs = (family, step)" by (cases fs)
  from match_family_step_nonempty [of "\<lambda>e. e = CHR ''/''" name family step] Some fs assms
  show ?thesis by (auto simp: extract_color_info_from_name_def lower_def)
next
  case first: None
  show ?thesis
  proof (cases "match_family_step is_space name")
    case (Some fs)
    obtain family step where fs: "fs = (family, step)" by (cases fs)
    from match_family_step_nonempty [of is_space name family step] Some fs first assms
    show ?thesis by (auto simp: extract_color_info_from_name_def lower_def)
  next
    case second: None
    show ?thesis
    proof (cases "find (\<lambda>palette. startswith (lower name) (palette @ ''/'')) known_palettes")
      case None
      with first second assms show ?thesis
        by (simp add: extract_color_info_from_name_def)
    next
      case (Some palette)
      with first second assms have "pn = palette" "search_step name = Some st"
        by (simp_all add: extract_color_info_from_name_def)
      with known_palette_nonempty [OF Some] search_step_nonempty [of name st]
      show ?thesis by simp
    qed
  qed
qed

lemma fix_white_value_replaced:
  assumes "pn \<noteq> [] \<and> st \<noteq> []"
    and "map_of pal pn = Some palette"
    and "map_of palette st = Some (pr, pg, pb)"
  shows "fix_white_value pal (Some pn) (Some st) (Color 1 1 1 alpha)
           = Some (Color (round4 pr) (round4 pg) (round4 pb) alpha)"
  using assms by (simp add: fix_white_value_def)

lemma fix_white_value_without_colour:
  assumes "fix_white_value pal palette_name step value = Some new"
  shows "\<exists>pn st palette colour.
           palette_name = Some pn \<and> step = Some st
           \<and> map_of pal pn = Some palette \<and> map_of palette st = Some colour"
  using assms
  by (auto simp: fix_white_value_def split: mode_value.splits if_splits option.splits)

lemma fix_white_variable_per_mode:
  assumes "distinct (map fst (valuesByMode var))"
  shows "list_all2 (\<lambda>entry entry'.
             fst entry' = fst entry
           \<and> (\<forall>alpha pn st palette pr pg pb.
                  snd entry = Color 1 1 1 alpha
                \<and> extract_color_info_from_name (v_name var) = (Some pn, Some st)
                \<and> map_of pal pn = Some palette \<and> map_of palette st = Some (pr, pg, pb)
                \<longrightarrow> snd entry' = Color (round4 pr) (round4 pg) (round4 pb) alpha)
           \<and> (\<not> is_white (snd entry) \<longrightarrow> snd entry' = snd entry)
           \<and> (\<not> (\<exists>pn st palette colour.
                    extract_color_info_from_name (v_name var) = (Some pn, Some st)
                  \<and> map_of pal pn = Some palette \<and> map_of palette st = Some colour)
                \<longrightarrow> snd entry' = snd entry))
          (valuesByMode var) (valuesByMode (fst (fix_white_variable pal var)))"
proof -
  obtain palette_name step
    where info: "extract_color_info_from_name (v_name var) = (palette_name, step)"
    by (cases "extract_color_info_from_name (v_name var)")
  define outcome where
    "outcome = (\<lambda>value. case fix_white_value pal palette_name step value of
                         None \<Rightarrow> value | Some new \<Rightarrow> new)"
  have vals: "valuesByMode (fst (fix_white_variable pal var))
                  = map (\<lambda>entry. (fst entry, outcome (snd entry))) (valuesByMode var)"
    using fix_white_variable_values [OF assms info, of pal]
    by (simp add: outcome_def split_beta)
  have replaced: "outcome (Color 1 1 1 alpha) = Color (round4 pr) (round4 pg) (round4 pb) alpha"
    if "extract_color_info_from_name (v_name var) = (Some pn, Some st)"
      and "map_of pal pn = Some palette" and "map_of palette st = Some (pr, pg, pb)"
    for alpha pn st palette pr pg pb
  proof -
    from that(1) info have names: "palette_name = Some pn" "step = Some st" by simp_all
    from fix_white_value_replaced [OF extract_color_info_nonempty [OF that(1)] that(2,3)]
    show ?thesis by (simp add: outcome_def names)
  qed
  have kept: "outcome val = val" if "\<not> is_white val" for val
    using that by (simp add: outcome_def fix_white_value_only_white)
  have absent: "outcome val = val"
    if "\<not> (\<exists>pn st palette colour.
              extract_color_info_from_name (v_name var) = (Some pn, Some st)
            \<and> map_of pal pn = Some palette \<and> map_of palette st = Some colour)"
    for val
  proof (cases "fix_white_value pal palette_name step val")
    case None
    then show ?thesis by (simp add: outcome_def)
  next
    case (Some new)
    from fix_white_value_without_colour [OF Some] info that show ?thesis by blast
  qed
  show ?thesis
    unfolding vals list_all2_map2
    by (rule list_all2_refl) (use replaced kept absent in \<open>auto\<close>)
qed

text \<open>
  C2, as the code has it. In both external-reference passes every variable of the
  collection \<open>00_Semi semantics\<close> that the pass selects (its name lacks
  \<open>[Semi semantics]\<close>, one of its values is an alias into a foreign library, its name has
  at least three parts) ends with one direct colour under every one of its mode ids.
  The white pass decides each mode alone. With distinct mode ids, the entries after the
  pass are the entries before, mode id by mode id, and for each of them: a value with
  \<open>r = g = b = 1\<close> and alpha \<open>alpha\<close> becomes the palette's colour for the family and
  step read from the variable's name, each channel rounded to four decimals, with the same
  \<open>alpha\<close>; a value that is not white stays as it was, even when another mode of the same
  variable is replaced; and so does every value when the palette has no colour for the
  name.
\<close>

theorem repair_overwrite_extent:
  assumes "find (\<lambda>coll. c_name coll = ''00_Semi semantics'') (collections data) = Some coll"
  shows "(\<exists>coll'. find (\<lambda>coll. c_name coll = ''00_Semi semantics'')
                     (collections (fst (fix_external_references data))) = Some coll'
            \<and> list_all2 (\<lambda>var var'.
                   selected_external var \<longrightarrow>
                   (\<exists>cr cg cb. all_modes_are
                      (Color cr cg cb (get_alpha_for_weight (split_on CHR ''/'' (v_name var) ! 2)))
                      var var'))
                 (variables coll) (variables coll'))
       \<and> (\<exists>coll'. find (\<lambda>coll. c_name coll = ''00_Semi semantics'')
                     (collections (fst (fix_external_references_v2 data))) = Some coll'
            \<and> list_all2 (\<lambda>var var'.
                   selected_external var \<longrightarrow>
                   (\<exists>cr cg cb. all_modes_are
                      (Color cr cg cb (get_alpha_for_weight (split_on CHR ''/'' (v_name var) ! 2)))
                      var var'))
                 (variables coll) (variables coll'))
       \<and> list_all2 (\<lambda>c c'.
              list_all2 (\<lambda>var var'.
                   distinct (map fst (valuesByMode var)) \<longrightarrow>
                   list_all2 (\<lambda>entry entry'.
                        fst entry' = fst entry
                      \<and> (\<forall>alpha pn st palette pr pg pb.
                             snd entry = Color 1 1 1 alpha
                           \<and> extract_color_info_from_name (v_name var) = (Some pn, Some st)
                           \<and> map_of pal pn = Some palette
                           \<and> map_of palette st = Some (pr, pg, pb)
                           \<longrightarrow> snd entry' = Color (round4 pr) (round4 pg) (round4 pb) alpha)
                      \<and> (\<not> is_white (snd entry) \<longrightarrow> snd entry' = snd entry)
                      \<and> (\<not> (\<exists>pn st palette colour.
                               extract_color_info_from_name (v_name var) = (Some pn, Some st)
                             \<and> map_of pal pn = Some palette
                             \<and> map_of palette st = Some colour)
                           \<longrightarrow> snd entry' = snd entry))
                     (valuesByMode var) (valuesByMode var'))
                 (variables c) (variables c'))
            (collections data) (collections (fst (fix_all_white_colors data pal)))"
proof (intro conjI)
  show "(\<exists>coll'. find (\<lambda>coll. c_name coll = ''00_Semi semantics'')
                     (collections (fst (fix_external_references data))) = Some coll'
            \<and> list_all2 (\<lambda>var var'.
                   selected_external var \<longrightarrow>
                   (\<exists>cr cg cb. all_modes_are
                      (Color cr cg cb (get_alpha_for_weight (split_on CHR ''/'' (v_name var) ! 2)))
                      var var'))
                 (variables coll) (variables coll'))"
    unfolding external_v1_collections
    using assms
    by (simp add: find_rewrite_first list_all2_map2 list_all2_same fix_variable_v1_selected)
next
  show "(\<exists>coll'. find (\<lambda>coll. c_name coll = ''00_Semi semantics'')
                     (collections (fst (fix_external_references_v2 data))) = Some coll'
            \<and> list_all2 (\<lambda>var var'.
                   selected_external var \<longrightarrow>
                   (\<exists>cr cg cb. all_modes_are
                      (Color cr cg cb (get_alpha_for_weight (split_on CHR ''/'' (v_name var) ! 2)))
                      var var'))
                 (variables coll) (variables coll'))"
    unfolding external_v2_collections
    using assms
    by (simp add: find_rewrite_first list_all2_map2 list_all2_same fix_variable_v2_selected)
next
  have inner: "list_all2 (\<lambda>var var'.
                   distinct (map fst (valuesByMode var)) \<longrightarrow>
                   list_all2 (\<lambda>entry entry'.
                        fst entry' = fst entry
                      \<and> (\<forall>alpha pn st palette pr pg pb.
                             snd entry = Color 1 1 1 alpha
                           \<and> extract_color_info_from_name (v_name var) = (Some pn, Some st)
                           \<and> map_of pal pn = Some palette
                           \<and> map_of palette st = Some (pr, pg, pb)
                           \<longrightarrow> snd entry' = Color (round4 pr) (round4 pg) (round4 pb) alpha)
                      \<and> (\<not> is_white (snd entry) \<longrightarrow> snd entry' = snd entry)
                      \<and> (\<not> (\<exists>pn st palette colour.
                               extract_color_info_from_name (v_name var) = (Some pn, Some st)
                             \<and> map_of pal pn = Some palette
                             \<and> map_of palette st = Some colour)
                           \<longrightarrow> snd entry' = snd entry))
                     (valuesByMode var) (valuesByMode var'))
                 vars (map (\<lambda>var. fst (fix_white_variable pal var)) vars)" for vars
    unfolding list_all2_map2
    by (rule list_all2_refl) (use fix_white_variable_per_mode in blast)
  show "list_all2 (\<lambda>c c'.
              list_all2 (\<lambda>var var'.
                   distinct (map fst (valuesByMode var)) \<longrightarrow>
                   list_all2 (\<lambda>entry entry'.
                        fst entry' = fst entry
                      \<and> (\<forall>alpha pn st palette pr pg pb.
                             snd entry = Color 1 1 1 alpha
                           \<and> extract_color_info_from_name (v_name var) = (Some pn, Some st)
                           \<and> map_of pal pn = Some palette
                           \<and> map_of palette st = Some (pr, pg, pb)
                           \<longrightarrow> snd entry' = Color (round4 pr) (round4 pg) (round4 pb) alpha)
                      \<and> (\<not> is_white (snd entry) \<longrightarrow> snd entry' = snd entry)
                      \<and> (\<not> (\<exists>pn st palette colour.
                               extract_color_info_from_name (v_name var) = (Some pn, Some st)
                             \<and> map_of pal pn = Some palette
                             \<and> map_of palette st = Some colour)
                           \<longrightarrow> snd entry' = snd entry))
                     (valuesByMode var) (valuesByMode var'))
                 (variables c) (variables c'))
            (collections data) (collections (fst (fix_all_white_colors data pal)))"
    unfolding white_collections list_all2_map2
  proof (rule list_all2_refl)
    fix c :: collection
    have sel: "variables (c\<lparr>variables := map (\<lambda>var. fst (fix_white_variable pal var))
                                             (variables c)\<rparr>)
                 = map (\<lambda>var. fst (fix_white_variable pal var)) (variables c)"
      by simp
    show "list_all2 (\<lambda>var var'.
                   distinct (map fst (valuesByMode var)) \<longrightarrow>
                   list_all2 (\<lambda>entry entry'.
                        fst entry' = fst entry
                      \<and> (\<forall>alpha pn st palette pr pg pb.
                             snd entry = Color 1 1 1 alpha
                           \<and> extract_color_info_from_name (v_name var) = (Some pn, Some st)
                           \<and> map_of pal pn = Some palette
                           \<and> map_of palette st = Some (pr, pg, pb)
                           \<longrightarrow> snd entry' = Color (round4 pr) (round4 pg) (round4 pb) alpha)
                      \<and> (\<not> is_white (snd entry) \<longrightarrow> snd entry' = snd entry)
                      \<and> (\<not> (\<exists>pn st palette colour.
                               extract_color_info_from_name (v_name var) = (Some pn, Some st)
                             \<and> map_of pal pn = Some palette
                             \<and> map_of palette st = Some colour)
                           \<longrightarrow> snd entry' = snd entry))
                     (valuesByMode var) (valuesByMode var'))
                 (variables c)
                 (variables (c\<lparr>variables := map (\<lambda>var. fst (fix_white_variable pal var))
                                                  (variables c)\<rparr>))"
      unfolding sel by (rule inner)
  qed
qed

lemma repair_document_semi:
  "find (\<lambda>coll. c_name coll = ''00_Semi semantics'') (collections repair_document)
     = Some semi_collection"
  by code_simp

lemma repair_document_selected:
  "selected_external var_X
   \<and> valuesByMode (variables (collections (fst (fix_external_references repair_document)) ! 1) ! 1)
       = [(''m0'', Color (4/100) 0 (2/10) (8/100)), (''m1'', Color (4/100) 0 (2/10) (8/100))]
   \<and> valuesByMode (variables (collections (fst (fix_external_references_v2 repair_document)) ! 1) ! 1)
       = [(''m0'', Color 1 1 1 (8/100)), (''m1'', Color 1 1 1 (8/100))]
   \<and> extract_color_info_from_name (v_name var_W) = (Some ''grey'', Some ''2500'')
   \<and> valuesByMode (variables (collections repair_document ! 1) ! 2)
       = [(''m0'', Color 1 1 1 1), (''m1'', Color (1/2) (1/2) (1/2) 1)]
   \<and> valuesByMode
         (variables (collections (fst (fix_all_white_colors repair_document example_palette)) ! 1) ! 2)
       = [(''m0'', Color (round4 (98768/100000)) (round4 (98768/100000))
                         (round4 (98768/100000)) 1),
          (''m1'', Color (1/2) (1/2) (1/2) 1)]"
  by code_simp

theorem repair_overwrite_extent_witness:
  "((\<exists>coll'. find (\<lambda>coll. c_name coll = ''00_Semi semantics'')
                     (collections (fst (fix_external_references repair_document))) = Some coll'
            \<and> list_all2 (\<lambda>var var'.
                   selected_external var \<longrightarrow>
                   (\<exists>cr cg cb. all_modes_are
                      (Color cr cg cb (get_alpha_for_weight (split_on CHR ''/'' (v_name var) ! 2)))
                      var var'))
                 (variables semi_collection) (variables coll'))
       \<and> (\<exists>coll'. find (\<lambda>coll. c_name coll = ''00_Semi semantics'')
                     (collections (fst (fix_external_references_v2 repair_document))) = Some coll'
            \<and> list_all2 (\<lambda>var var'.
                   selected_external var \<longrightarrow>
                   (\<exists>cr cg cb. all_modes_are
                      (Color cr cg cb (get_alpha_for_weight (split_on CHR ''/'' (v_name var) ! 2)))
                      var var'))
                 (variables semi_collection) (variables coll'))
       \<and> list_all2 (\<lambda>c c'.
              list_all2 (\<lambda>var var'.
                   distinct (map fst (valuesByMode var)) \<longrightarrow>
                   list_all2 (\<lambda>entry entry'.
                        fst entry' = fst entry
                      \<and> (\<forall>alpha pn st palette pr pg pb.
                             snd entry = Color 1 1 1 alpha
                           \<and> extract_color_info_from_name (v_name var) = (Some pn, Some st)
                           \<and> map_of example_palette pn = Some palette
                           \<and> map_of palette st = Some (pr, pg, pb)
                           \<longrightarrow> snd entry' = Color (round4 pr) (round4 pg) (round4 pb) alpha)
                      \<and> (\<not> is_white (snd entry) \<longrightarrow> snd entry' = snd entry)
                      \<and> (\<not> (\<exists>pn st palette colour.
                               extract_color_info_from_name (v_name var) = (Some pn, Some st)
                             \<and> map_of example_palette pn = Some palette
                             \<and> map_of palette st = Some colour)
                           \<longrightarrow> snd entry' = snd entry))
                     (valuesByMode var) (valuesByMode var'))
                 (variables c) (variables c'))
            (collections repair_document)
            (collections (fst (fix_all_white_colors repair_document example_palette))))
   \<and> (selected_external var_X
   \<and> valuesByMode (variables (collections (fst (fix_external_references repair_document)) ! 1) ! 1)
       = [(''m0'', Color (4/100) 0 (2/10) (8/100)), (''m1'', Color (4/100) 0 (2/10) (8/100))]
   \<and> valuesByMode (variables (collections (fst (fix_external_references_v2 repair_document)) ! 1) ! 1)
       = [(''m0'', Color 1 1 1 (8/100)), (''m1'', Color 1 1 1 (8/100))]
   \<and> extract_color_info_from_name (v_name var_W) = (Some ''grey'', Some ''2500'')
   \<and> valuesByMode (variables (collections repair_document ! 1) ! 2)
       = [(''m0'', Color 1 1 1 1), (''m1'', Color (1/2) (1/2) (1/2) 1)]
   \<and> valuesByMode
         (variables (collections (fst (fix_all_white_colors repair_document example_palette)) ! 1) ! 2)
       = [(''m0'', Color (round4 (98768/100000)) (round4 (98768/100000))
                         (round4 (98768/100000)) 1),
          (''m1'', Color (1/2) (1/2) (1/2) 1)])"
  using repair_overwrite_extent [OF repair_document_semi, of example_palette]
    repair_document_selected
  by (rule conjI)

text \<open>
  The specification has a variable overwritten when its chain fails with an external
  reference, and has every mode overwritten. Neither holds. The first three variables
  of \<open>guarded_collection\<close> fail with an external reference in the first mode, the validator
  counts three external references, and both external-reference passes return the
  document as it was. The fourth is white in mode \<open>m0\<close> and is repaired there by the white
  pass, alpha kept, while its value in mode \<open>m1\<close> is left as it was.
\<close>

theorem repair_selection_counterexample:
  "resolve_alias_chain (variables_by_id guarded_document) ''VariableID:4:1'' ''m0'' {}
     = (False, None, [''Indigo/2500/[Semi semantics] Surface'',
                      ''EXTERNAL_REF: VariableID:abc123/7:8''])
   \<and> resolve_alias_chain (variables_by_id guarded_document) ''VariableID:4:2'' ''m0'' {}
     = (False, None, [''Indigo/Surface'', ''EXTERNAL_REF: VariableID:abc123/7:9''])
   \<and> resolve_alias_chain (variables_by_id guarded_document) ''VariableID:4:3'' ''m0'' {}
     = (False, None, [''Indigo/2400/Bold'', ''Indigo/2500/[Semi semantics] Surface'',
                      ''EXTERNAL_REF: VariableID:abc123/7:8''])
   \<and> external_refs (validate_collection guarded_document ''00_Semi semantics'') = 3
   \<and> fst (fix_external_references guarded_document) = guarded_document
   \<and> fst (fix_external_references_v2 guarded_document) = guarded_document
   \<and> variables guarded_collection ! 3 = var_K
   \<and> valuesByMode var_K
       = [(''m0'', Color 1 1 1 (15/100)), (''m1'', Color (1/2) (1/2) (1/2) (15/100))]
   \<and> valuesByMode
         (variables (collections (fst (fix_all_white_colors guarded_document example_palette)) ! 0) ! 3)
       = [(''m0'', Color (9877/10000) (9877/10000) (9877/10000) (15/100)),
          (''m1'', Color (1/2) (1/2) (1/2) (15/100))]"
  by code_simp

section \<open>Properties of the colour converter\<close>

subsection \<open>Evaluating the rounding\<close>

lemma rnd_zero: "rnd 0 = 0"
  by (simp add: rnd_def)

lemma rnd_exponent:
  assumes "2 powr (of_int k) \<le> \<bar>x\<bar>" and "\<bar>x\<bar> < 2 powr (of_int k + 1)"
  shows "rnd x = of_int (round_half_even (x * 2 powr (52 - of_int k))) * 2 powr (of_int k - 52)"
proof -
  have pos: "0 < \<bar>x\<bar>" using assms(1) by (smt (verit) powr_gt_zero)
  then have "\<lfloor>log 2 \<bar>x\<bar>\<rfloor> = k"
    using assms by (simp add: floor_log_eq_powr_iff)
  with pos show ?thesis by (simp add: rnd_def Let_def)
qed

lemma rnd_eval_up:
  assumes "2 ^ n \<le> \<bar>x\<bar>" and "\<bar>x\<bar> < 2 * 2 ^ n" and "n \<le> 52"
  shows "rnd x = of_int (round_half_even (x * 2 ^ (52 - n))) / 2 ^ (52 - n)"
proof -
  have a: "2 powr (of_int (int n)) = (2::real) ^ n"
    by (simp add: powr_realpow)
  have b: "2 powr (of_int (int n) + 1) = (2::real) * 2 ^ n"
    by (simp add: powr_add powr_realpow)
  have c: "2 powr (52 - of_int (int n)) = (2::real) ^ (52 - n)"
    using assms(3) powr_realpow [of 2 "52 - n"] by (simp add: of_nat_diff)
  have d: "2 powr (of_int (int n) - 52) = 1 / (2::real) ^ (52 - n)"
    using assms(3) powr_realpow [of 2 "52 - n"] powr_minus [of 2 "real (52 - n)"]
    by (simp add: of_nat_diff inverse_eq_divide)
  from rnd_exponent [of "int n" x] assms(1,2) show ?thesis
    unfolding a b c d by simp
qed

lemma rnd_eval_down:
  assumes "1 \<le> \<bar>x\<bar> * 2 ^ n" and "\<bar>x\<bar> * 2 ^ n < 2"
  shows "rnd x = of_int (round_half_even (x * 2 ^ (52 + n))) / 2 ^ (52 + n)"
proof -
  have a: "2 powr (of_int (- int n)) = 1 / (2::real) ^ n"
    using powr_realpow [of 2 n] powr_minus [of 2 "real n"] by (simp add: inverse_eq_divide)
  have "2 powr (of_int (- int n) + 1) = 2 powr (of_int (- int n)) * (2::real) powr 1"
    by (rule powr_add)
  with a have b: "2 powr (of_int (- int n) + 1) = 2 / (2::real) ^ n"
    by simp
  have c: "2 powr (52 - of_int (- int n)) = (2::real) ^ (52 + n)"
    using powr_realpow [of 2 "52 + n"] by simp
  have "of_int (- int n) - 52 = - real (52 + n)" by simp
  then have d: "2 powr (of_int (- int n) - 52) = 1 / (2::real) ^ (52 + n)"
    using powr_realpow [of 2 "52 + n"] powr_minus [of 2 "real (52 + n)"]
    by (simp only: inverse_eq_divide)
  have "1 / 2 ^ n \<le> \<bar>x\<bar>" using assms(1) by (simp add: field_simps)
  moreover have "\<bar>x\<bar> < 2 / 2 ^ n" using assms(2) by (simp add: field_simps)
  ultimately show ?thesis
    using rnd_exponent [of "- int n" x] unfolding a b c d by simp
qed

lemma rnd_k_r_l: "rnd (40767416621 / 10000000000) = 2295001528789917 / 2 ^ 49"
proof -
  have "rnd (40767416621 / 10000000000)
          = of_int (round_half_even ((40767416621 / 10000000000) * 2 ^ (52 - 2))) / 2 ^ (52 - 2)"
    by (rule rnd_eval_up) simp_all
  also have "round_half_even ((40767416621 / 10000000000) * 2 ^ (52 - 2)) = 4590003057579834"
    by (simp add: round_half_even_def Let_def)
  finally show ?thesis by simp
qed

lemma rnd_k_r_m: "rnd (33077115913 / 10000000000) = 7448304345013875 / 2 ^ 51"
proof -
  have "rnd (33077115913 / 10000000000)
          = of_int (round_half_even ((33077115913 / 10000000000) * 2 ^ (52 - 1))) / 2 ^ (52 - 1)"
    by (rule rnd_eval_up) simp_all
  also have "round_half_even ((33077115913 / 10000000000) * 2 ^ (52 - 1)) = 7448304345013875"
    by (simp add: round_half_even_def Let_def)
  finally show ?thesis by simp
qed

lemma rnd_k_r_s: "rnd (2309699292 / 10000000000) = 8321568696631279 / 2 ^ 55"
proof -
  have "rnd (2309699292 / 10000000000)
          = of_int (round_half_even ((2309699292 / 10000000000) * 2 ^ (52 + 3))) / 2 ^ (52 + 3)"
    by (rule rnd_eval_down) simp_all
  also have "round_half_even ((2309699292 / 10000000000) * 2 ^ (52 + 3)) = 8321568696631279"
    by (simp add: round_half_even_def Let_def)
  finally show ?thesis by simp
qed

lemma rnd_k_g_l: "rnd (12684380046 / 10000000000) = 5712536924859135 / 2 ^ 52"
proof -
  have "rnd (12684380046 / 10000000000)
          = of_int (round_half_even ((12684380046 / 10000000000) * 2 ^ (52 - 0))) / 2 ^ (52 - 0)"
    by (rule rnd_eval_up) simp_all
  also have "round_half_even ((12684380046 / 10000000000) * 2 ^ (52 - 0)) = 5712536924859135"
    by (simp add: round_half_even_def Let_def)
  finally show ?thesis by simp
qed

lemma rnd_k_g_m: "rnd (26097574011 / 10000000000) = 5876651229560677 / 2 ^ 51"
proof -
  have "rnd (26097574011 / 10000000000)
          = of_int (round_half_even ((26097574011 / 10000000000) * 2 ^ (52 - 1))) / 2 ^ (52 - 1)"
    by (rule rnd_eval_up) simp_all
  also have "round_half_even ((26097574011 / 10000000000) * 2 ^ (52 - 1)) = 5876651229560677"
    by (simp add: round_half_even_def Let_def)
  finally show ?thesis by simp
qed

lemma rnd_k_g_s: "rnd (3413193965 / 10000000000) = 3074331813783445 / 2 ^ 53"
proof -
  have "rnd (3413193965 / 10000000000)
          = of_int (round_half_even ((3413193965 / 10000000000) * 2 ^ (52 + 2))) / 2 ^ (52 + 2)"
    by (rule rnd_eval_down) simp_all
  also have "round_half_even ((3413193965 / 10000000000) * 2 ^ (52 + 2)) = 6148663627566890"
    by (simp add: round_half_even_def Let_def)
  finally show ?thesis by simp
qed

lemma rnd_k_b_l: "rnd (41960863 / 10000000000) = 4837758130456177 / 2 ^ 60"
proof -
  have "rnd (41960863 / 10000000000)
          = of_int (round_half_even ((41960863 / 10000000000) * 2 ^ (52 + 8))) / 2 ^ (52 + 8)"
    by (rule rnd_eval_down) simp_all
  also have "round_half_even ((41960863 / 10000000000) * 2 ^ (52 + 8)) = 4837758130456177"
    by (simp add: round_half_even_def Let_def)
  finally show ?thesis by simp
qed

lemma rnd_k_b_m: "rnd (7034186147 / 10000000000) = 6335831622096781 / 2 ^ 53"
proof -
  have "rnd (7034186147 / 10000000000)
          = of_int (round_half_even ((7034186147 / 10000000000) * 2 ^ (52 + 1))) / 2 ^ (52 + 1)"
    by (rule rnd_eval_down) simp_all
  also have "round_half_even ((7034186147 / 10000000000) * 2 ^ (52 + 1)) = 6335831622096781"
    by (simp add: round_half_even_def Let_def)
  finally show ?thesis by simp
qed

lemma rnd_k_b_s: "rnd (17076147010 / 10000000000) = 7690412931115981 / 2 ^ 52"
proof -
  have "rnd (17076147010 / 10000000000)
          = of_int (round_half_even ((17076147010 / 10000000000) * 2 ^ (52 - 0))) / 2 ^ (52 - 0)"
    by (rule rnd_eval_up) simp_all
  also have "round_half_even ((17076147010 / 10000000000) * 2 ^ (52 - 0)) = 7690412931115981"
    by (simp add: round_half_even_def Let_def)
  finally show ?thesis by simp
qed

lemma rnd_c_1055: "rnd (1055 / 1000) = 4751297606875873 / 2 ^ 52"
proof -
  have "rnd (1055 / 1000)
          = of_int (round_half_even ((1055 / 1000) * 2 ^ (52 - 0))) / 2 ^ (52 - 0)"
    by (rule rnd_eval_up) simp_all
  also have "round_half_even ((1055 / 1000) * 2 ^ (52 - 0)) = 4751297606875873"
    by (simp add: round_half_even_def Let_def)
  finally show ?thesis by simp
qed

lemma rnd_c_0055: "rnd (55 / 1000) = 7926335344172073 / 2 ^ 57"
proof -
  have "rnd (55 / 1000)
          = of_int (round_half_even ((55 / 1000) * 2 ^ (52 + 5))) / 2 ^ (52 + 5)"
    by (rule rnd_eval_down) simp_all
  also have "round_half_even ((55 / 1000) * 2 ^ (52 + 5)) = 7926335344172073"
    by (simp add: round_half_even_def Let_def)
  finally show ?thesis by simp
qed

lemma rnd_c_threshold: "rnd (31308 / 10000000) = 7219133293246233 / 2 ^ 61"
proof -
  have "rnd (31308 / 10000000)
          = of_int (round_half_even ((31308 / 10000000) * 2 ^ (52 + 9))) / 2 ^ (52 + 9)"
    by (rule rnd_eval_down) simp_all
  also have "round_half_even ((31308 / 10000000) * 2 ^ (52 + 9)) = 7219133293246233"
    by (simp add: round_half_even_def Let_def)
  finally show ?thesis by simp
qed

lemma rnd_keep_k_r_l: "rnd (2295001528789917 / 2 ^ 49) = 2295001528789917 / 2 ^ 49"
proof -
  have "rnd (2295001528789917 / 2 ^ 49)
          = of_int (round_half_even ((2295001528789917 / 2 ^ 49) * 2 ^ (52 - 2))) / 2 ^ (52 - 2)"
    by (rule rnd_eval_up) simp_all
  also have "round_half_even ((2295001528789917 / 2 ^ 49) * 2 ^ (52 - 2)) = 4590003057579834"
    by (simp add: round_half_even_def Let_def)
  finally show ?thesis by simp
qed

lemma rnd_keep_k_r_m: "rnd (7448304345013875 / 2 ^ 51) = 7448304345013875 / 2 ^ 51"
proof -
  have "rnd (7448304345013875 / 2 ^ 51)
          = of_int (round_half_even ((7448304345013875 / 2 ^ 51) * 2 ^ (52 - 1))) / 2 ^ (52 - 1)"
    by (rule rnd_eval_up) simp_all
  also have "round_half_even ((7448304345013875 / 2 ^ 51) * 2 ^ (52 - 1)) = 7448304345013875"
    by (simp add: round_half_even_def Let_def)
  finally show ?thesis by simp
qed

lemma rnd_keep_k_r_s: "rnd (8321568696631279 / 2 ^ 55) = 8321568696631279 / 2 ^ 55"
proof -
  have "rnd (8321568696631279 / 2 ^ 55)
          = of_int (round_half_even ((8321568696631279 / 2 ^ 55) * 2 ^ (52 + 3))) / 2 ^ (52 + 3)"
    by (rule rnd_eval_down) simp_all
  also have "round_half_even ((8321568696631279 / 2 ^ 55) * 2 ^ (52 + 3)) = 8321568696631279"
    by (simp add: round_half_even_def Let_def)
  finally show ?thesis by simp
qed

lemma rnd_keep_k_g_l: "rnd (- (5712536924859135 / 2 ^ 52)) = - (5712536924859135 / 2 ^ 52)"
proof -
  have "rnd (- (5712536924859135 / 2 ^ 52))
          = of_int (round_half_even ((- (5712536924859135 / 2 ^ 52)) * 2 ^ (52 - 0))) / 2 ^ (52 - 0)"
    by (rule rnd_eval_up) simp_all
  also have "round_half_even ((- (5712536924859135 / 2 ^ 52)) * 2 ^ (52 - 0)) = -5712536924859135"
    by (simp add: round_half_even_def Let_def)
  finally show ?thesis by simp
qed

lemma rnd_keep_k_g_m: "rnd (5876651229560677 / 2 ^ 51) = 5876651229560677 / 2 ^ 51"
proof -
  have "rnd (5876651229560677 / 2 ^ 51)
          = of_int (round_half_even ((5876651229560677 / 2 ^ 51) * 2 ^ (52 - 1))) / 2 ^ (52 - 1)"
    by (rule rnd_eval_up) simp_all
  also have "round_half_even ((5876651229560677 / 2 ^ 51) * 2 ^ (52 - 1)) = 5876651229560677"
    by (simp add: round_half_even_def Let_def)
  finally show ?thesis by simp
qed

lemma rnd_keep_k_g_s: "rnd (3074331813783445 / 2 ^ 53) = 3074331813783445 / 2 ^ 53"
proof -
  have "rnd (3074331813783445 / 2 ^ 53)
          = of_int (round_half_even ((3074331813783445 / 2 ^ 53) * 2 ^ (52 + 2))) / 2 ^ (52 + 2)"
    by (rule rnd_eval_down) simp_all
  also have "round_half_even ((3074331813783445 / 2 ^ 53) * 2 ^ (52 + 2)) = 6148663627566890"
    by (simp add: round_half_even_def Let_def)
  finally show ?thesis by simp
qed

lemma rnd_keep_k_b_l: "rnd (- (4837758130456177 / 2 ^ 60)) = - (4837758130456177 / 2 ^ 60)"
proof -
  have "rnd (- (4837758130456177 / 2 ^ 60))
          = of_int (round_half_even ((- (4837758130456177 / 2 ^ 60)) * 2 ^ (52 + 8))) / 2 ^ (52 + 8)"
    by (rule rnd_eval_down) simp_all
  also have "round_half_even ((- (4837758130456177 / 2 ^ 60)) * 2 ^ (52 + 8)) = -4837758130456177"
    by (simp add: round_half_even_def Let_def)
  finally show ?thesis by simp
qed

lemma rnd_keep_k_b_m: "rnd (6335831622096781 / 2 ^ 53) = 6335831622096781 / 2 ^ 53"
proof -
  have "rnd (6335831622096781 / 2 ^ 53)
          = of_int (round_half_even ((6335831622096781 / 2 ^ 53) * 2 ^ (52 + 1))) / 2 ^ (52 + 1)"
    by (rule rnd_eval_down) simp_all
  also have "round_half_even ((6335831622096781 / 2 ^ 53) * 2 ^ (52 + 1)) = 6335831622096781"
    by (simp add: round_half_even_def Let_def)
  finally show ?thesis by simp
qed

lemma rnd_keep_k_b_s: "rnd (7690412931115981 / 2 ^ 52) = 7690412931115981 / 2 ^ 52"
proof -
  have "rnd (7690412931115981 / 2 ^ 52)
          = of_int (round_half_even ((7690412931115981 / 2 ^ 52) * 2 ^ (52 - 0))) / 2 ^ (52 - 0)"
    by (rule rnd_eval_up) simp_all
  also have "round_half_even ((7690412931115981 / 2 ^ 52) * 2 ^ (52 - 0)) = 7690412931115981"
    by (simp add: round_half_even_def Let_def)
  finally show ?thesis by simp
qed

lemma rnd_keep_c_1055: "rnd (4751297606875873 / 2 ^ 52) = 4751297606875873 / 2 ^ 52"
proof -
  have "rnd (4751297606875873 / 2 ^ 52)
          = of_int (round_half_even ((4751297606875873 / 2 ^ 52) * 2 ^ (52 - 0))) / 2 ^ (52 - 0)"
    by (rule rnd_eval_up) simp_all
  also have "round_half_even ((4751297606875873 / 2 ^ 52) * 2 ^ (52 - 0)) = 4751297606875873"
    by (simp add: round_half_even_def Let_def)
  finally show ?thesis by simp
qed

lemma rnd_one: "rnd (1) = 1"
proof -
  have "rnd (1)
          = of_int (round_half_even ((1) * 2 ^ (52 - 0))) / 2 ^ (52 - 0)"
    by (rule rnd_eval_up) simp_all
  also have "round_half_even ((1) * 2 ^ (52 - 0)) = 4503599627370496"
    by (simp add: round_half_even_def Let_def)
  finally show ?thesis by simp
qed

lemma rnd_row_r_1: "rnd (2295001528789917 / 2 ^ 49 - 7448304345013875 / 2 ^ 51) = 1731701770145793 / 2 ^ 51"
proof -
  have "rnd (2295001528789917 / 2 ^ 49 - 7448304345013875 / 2 ^ 51)
          = of_int (round_half_even ((2295001528789917 / 2 ^ 49 - 7448304345013875 / 2 ^ 51) * 2 ^ (52 + 1))) / 2 ^ (52 + 1)"
    by (rule rnd_eval_down) simp_all
  also have "round_half_even ((2295001528789917 / 2 ^ 49 - 7448304345013875 / 2 ^ 51) * 2 ^ (52 + 1)) = 6926807080583172"
    by (simp add: round_half_even_def Let_def)
  finally show ?thesis by simp
qed

lemma rnd_row_r_2: "rnd (1731701770145793 / 2 ^ 51 + 8321568696631279 / 2 ^ 55) = 1"
proof -
  have "rnd (1731701770145793 / 2 ^ 51 + 8321568696631279 / 2 ^ 55)
          = of_int (round_half_even ((1731701770145793 / 2 ^ 51 + 8321568696631279 / 2 ^ 55) * 2 ^ (52 + 1))) / 2 ^ (52 + 1)"
    by (rule rnd_eval_down) simp_all
  also have "round_half_even ((1731701770145793 / 2 ^ 51 + 8321568696631279 / 2 ^ 55) * 2 ^ (52 + 1)) = 9007199254740992"
    by (simp add: round_half_even_def Let_def)
  finally show ?thesis by simp
qed

lemma rnd_row_g_1: "rnd (- (5712536924859135 / 2 ^ 52) + 5876651229560677 / 2 ^ 51) = 6040765534262219 / 2 ^ 52"
proof -
  have "rnd (- (5712536924859135 / 2 ^ 52) + 5876651229560677 / 2 ^ 51)
          = of_int (round_half_even ((- (5712536924859135 / 2 ^ 52) + 5876651229560677 / 2 ^ 51) * 2 ^ (52 - 0))) / 2 ^ (52 - 0)"
    by (rule rnd_eval_up) simp_all
  also have "round_half_even ((- (5712536924859135 / 2 ^ 52) + 5876651229560677 / 2 ^ 51) * 2 ^ (52 - 0)) = 6040765534262219"
    by (simp add: round_half_even_def Let_def)
  finally show ?thesis by simp
qed

lemma rnd_row_g_2: "rnd (6040765534262219 / 2 ^ 52 - 3074331813783445 / 2 ^ 53) = 1"
proof -
  have "rnd (6040765534262219 / 2 ^ 52 - 3074331813783445 / 2 ^ 53)
          = of_int (round_half_even ((6040765534262219 / 2 ^ 52 - 3074331813783445 / 2 ^ 53) * 2 ^ (52 - 0))) / 2 ^ (52 - 0)"
    by (rule rnd_eval_up) simp_all
  also have "round_half_even ((6040765534262219 / 2 ^ 52 - 3074331813783445 / 2 ^ 53) * 2 ^ (52 - 0)) = 4503599627370496"
    by (simp add: round_half_even_def Let_def)
  finally show ?thesis by simp
qed

lemma rnd_row_b_1: "rnd (- (4837758130456177 / 2 ^ 60) - 6335831622096781 / 2 ^ 53) = - (3186813303745485 / 2 ^ 52)"
proof -
  have "rnd (- (4837758130456177 / 2 ^ 60) - 6335831622096781 / 2 ^ 53)
          = of_int (round_half_even ((- (4837758130456177 / 2 ^ 60) - 6335831622096781 / 2 ^ 53) * 2 ^ (52 + 1))) / 2 ^ (52 + 1)"
    by (rule rnd_eval_down) simp_all
  also have "round_half_even ((- (4837758130456177 / 2 ^ 60) - 6335831622096781 / 2 ^ 53) * 2 ^ (52 + 1)) = -6373626607490970"
    by (simp add: round_half_even_def Let_def)
  finally show ?thesis by simp
qed

lemma rnd_row_b_2: "rnd (- (3186813303745485 / 2 ^ 52) + 7690412931115981 / 2 ^ 52) = 1"
proof -
  have "rnd (- (3186813303745485 / 2 ^ 52) + 7690412931115981 / 2 ^ 52)
          = of_int (round_half_even ((- (3186813303745485 / 2 ^ 52) + 7690412931115981 / 2 ^ 52) * 2 ^ (52 - 0))) / 2 ^ (52 - 0)"
    by (rule rnd_eval_up) simp_all
  also have "round_half_even ((- (3186813303745485 / 2 ^ 52) + 7690412931115981 / 2 ^ 52) * 2 ^ (52 - 0)) = 4503599627370496"
    by (simp add: round_half_even_def Let_def)
  finally show ?thesis by simp
qed

lemma rnd_gamma_one: "rnd (4751297606875873 / 2 ^ 52 - 7926335344172073 / 2 ^ 57) = 9007199254740991 / 2 ^ 53"
proof -
  have "rnd (4751297606875873 / 2 ^ 52 - 7926335344172073 / 2 ^ 57)
          = of_int (round_half_even ((4751297606875873 / 2 ^ 52 - 7926335344172073 / 2 ^ 57) * 2 ^ (52 + 1))) / 2 ^ (52 + 1)"
    by (rule rnd_eval_down) simp_all
  also have "round_half_even ((4751297606875873 / 2 ^ 52 - 7926335344172073 / 2 ^ 57) * 2 ^ (52 + 1)) = 9007199254740991"
    by (simp add: round_half_even_def Let_def)
  finally show ?thesis by simp
qed

lemma rnd_hundred: "rnd (100) = 100"
proof -
  have "rnd (100)
          = of_int (round_half_even ((100) * 2 ^ (52 - 6))) / 2 ^ (52 - 6)"
    by (rule rnd_eval_up) simp_all
  also have "round_half_even ((100) * 2 ^ (52 - 6)) = 7036874417766400"
    by (simp add: round_half_even_def Let_def)
  finally show ?thesis by simp
qed

lemma fl_mul_zero_left: "fl_mul 0 x = 0"
  by (simp add: fl_mul_def rnd_zero)

lemma fl_mul_zero_right: "fl_mul x 0 = 0"
  by (simp add: fl_mul_def rnd_zero)

lemma fl_zero_sums: "fl_add 0 0 = 0" "fl_sub 0 0 = 0"
  by (simp_all add: fl_add_def fl_sub_def rnd_zero)

lemma fl_one_steps: "fl_add 1 0 = 1" "fl_sub 1 0 = 1" "fl_mul 1 1 = 1"
  by (simp_all add: fl_add_def fl_sub_def fl_mul_def rnd_one)

lemma row_r_at_one:
  "fl_add (fl_sub (fl_mul (rnd (40767416621 / 10000000000)) 1) (fl_mul (rnd (33077115913 / 10000000000)) 1))
          (fl_mul (rnd (2309699292 / 10000000000)) 1) = 1"
  by (simp only: fl_add_def fl_sub_def fl_mul_def mult_1_right rnd_k_r_l rnd_k_r_m rnd_k_r_s
        rnd_keep_k_r_l rnd_keep_k_r_m rnd_keep_k_r_s rnd_row_r_1 rnd_row_r_2)

lemma row_g_at_one:
  "fl_sub (fl_add (fl_mul (- rnd (12684380046 / 10000000000)) 1) (fl_mul (rnd (26097574011 / 10000000000)) 1))
          (fl_mul (rnd (3413193965 / 10000000000)) 1) = 1"
  by (simp only: fl_add_def fl_sub_def fl_mul_def mult_1_right rnd_k_g_l rnd_k_g_m rnd_k_g_s
        rnd_keep_k_g_l rnd_keep_k_g_m rnd_keep_k_g_s rnd_row_g_1 rnd_row_g_2)

lemma row_b_at_one:
  "fl_add (fl_sub (fl_mul (- rnd (41960863 / 10000000000)) 1) (fl_mul (rnd (7034186147 / 10000000000)) 1))
          (fl_mul (rnd (17076147010 / 10000000000)) 1) = 1"
  by (simp only: fl_add_def fl_sub_def fl_mul_def mult_1_right rnd_k_b_l rnd_k_b_m rnd_k_b_s
        rnd_keep_k_b_l rnd_keep_k_b_m rnd_keep_k_b_s rnd_row_b_1 rnd_row_b_2)

lemma linear_to_srgb_zero: "linear_to_srgb 0 = 0"
proof -
  have le: "(0::real) \<le> rnd (31308 / 10000000)"
    unfolding rnd_c_threshold by simp
  have clamp: "max 0 (min 1 (0::real)) = 0" by simp
  show ?thesis
    unfolding linear_to_srgb_def Let_def clamp
    using le by (simp only: if_True fl_mul_zero_left)
qed

lemma linear_to_srgb_one: "linear_to_srgb 1 = 9007199254740991 / 2 ^ 53"
proof -
  have above: "\<not> (1::real) \<le> rnd (31308 / 10000000)"
    unfolding rnd_c_threshold by simp
  have clamp: "max 0 (min 1 (1::real)) = 1" by simp
  have pow: "fl_pow 1 y = 1" for y
    by (simp add: fl_pow_def rnd_one)
  have gamma: "fl_sub (fl_mul (rnd (1055 / 1000)) 1) (rnd (55 / 1000)) = 9007199254740991 / 2 ^ 53"
    by (simp only: fl_sub_def fl_mul_def mult_1_right rnd_c_1055 rnd_c_0055 rnd_keep_c_1055
          rnd_gamma_one)
  show ?thesis
    unfolding linear_to_srgb_def Let_def clamp
    using above by (simp only: if_False pow gamma)
qed

lemma convert_black: "convert 0 0 H_deg = (0, 0, 0)"
  by (simp add: convert_def Let_def fl_mul_zero_left fl_mul_zero_right fl_zero_sums
        linear_to_srgb_zero)

lemma convert_white:
  "convert 1 0 H_deg = (9007199254740991 / 2 ^ 53, 9007199254740991 / 2 ^ 53, 9007199254740991 / 2 ^ 53)"
  by (simp only: convert_def Let_def fl_mul_zero_left fl_mul_zero_right fl_one_steps
        row_r_at_one row_g_at_one row_b_at_one linear_to_srgb_one)

lemma round4_below_one: "round4 (1 - 1 / 2 ^ 53) = 1"
proof -
  have fl: "\<lfloor>(1 - 1 / 2 ^ 53) * 10000 :: real\<rfloor> = 9999"
    by (rule floor_unique) simp_all
  have "round_half_even ((1 - 1 / 2 ^ 53) * 10000) = 10000"
    unfolding round_half_even_def Let_def fl by simp
  then show ?thesis by (simp add: round4_def)
qed

text \<open>
  C7, as the code has it. The hue is taken of magnitude below \<open>2 ^ 1022\<close>: then
  \<open>H * math.pi\<close> is a finite float and the arithmetic above is the arithmetic of the
  source (beyond that the product overflows, and a hue that is infinite or not a number
  is not a real number at all). For every such hue, zero lightness and zero chroma give
  exactly \<open>(0, 0, 0)\<close>. Full lightness and zero chroma give the same triple for every
  such hue, each channel being \<open>1.055 * 1.0 - 0.055\<close> rounded to binary64, which is
  \<open>1 - 1 / 2 ^ 53\<close>: one unit in the last place below \<open>1\<close>; the \<open>round(x, 4)\<close> that the
  repair passes apply to each channel makes it \<open>1\<close>. Neither result depends on how
  \<open>math.cos\<close>, \<open>math.sin\<close> and \<open>**\<close> round: the first two are multiplied by the zero
  chroma, and the power is taken of \<open>1.0\<close>.
\<close>

theorem achromatic_extremes:
  assumes "\<bar>H_deg\<bar> < 2 ^ 1022"
  shows "convert 0 0 H_deg = (0, 0, 0)
   \<and> convert 1 0 H_deg = (1 - 1 / 2 ^ 53, 1 - 1 / 2 ^ 53, 1 - 1 / 2 ^ 53)
   \<and> (case convert 1 0 H_deg of (cr, cg, cb) \<Rightarrow> (round4 cr, round4 cg, round4 cb)) = (1, 1, 1)"
proof -
  have white: "convert 1 0 H_deg = (1 - 1 / 2 ^ 53, 1 - 1 / 2 ^ 53, 1 - 1 / 2 ^ 53)"
    using convert_white [of H_deg] by simp
  moreover have "(case convert 1 0 H_deg of (cr, cg, cb) \<Rightarrow> (round4 cr, round4 cg, round4 cb))
                   = (1, 1, 1)"
    unfolding white by (simp only: prod.case round4_below_one)
  ultimately show ?thesis using convert_black [of H_deg] by simp
qed

theorem achromatic_extremes_witness:
  "convert 0 0 120 = (0, 0, 0)
   \<and> convert 1 0 120 = (1 - 1 / 2 ^ 53, 1 - 1 / 2 ^ 53, 1 - 1 / 2 ^ 53)
   \<and> (case convert 1 0 120 of (cr, cg, cb) \<Rightarrow> (round4 cr, round4 cg, round4 cb)) = (1, 1, 1)"
proof -
  have "\<bar>120 :: real\<bar> < 2 ^ 1022" by simp
  from achromatic_extremes [OF this] show ?thesis .
qed

text \<open>
  The specification asks for exactly \<open>(1, 1, 1)\<close>: the palette string
  \<open>oklch(100% 0 0)\<close> converts to three channels just below \<open>1\<close>.
\<close>

lemma white_match: "match_oklch ''oklch(100% 0 0)'' = Some ''100% 0 0''"
  by code_simp

lemma white_split: "split_ws [] ''100% 0 0'' = [''100%'', ''0'', ''0'']"
  by code_simp

lemma white_texts:
  "strip_number (rstrip_percent ''100%'') = ''100'' \<and> strip_number ''0'' = ''0''
   \<and> lower ''100'' = ''100'' \<and> lower ''0'' = ''0''
   \<and> parse_number ''100'' = Some 100 \<and> parse_number ''0'' = Some 0"
  by code_simp

lemma white_floats:
  "py_float (rstrip_percent ''100%'') = Finite 100 \<and> py_float ''0'' = Finite 0"
  using white_texts by (simp add: py_float_def rnd_hundred rnd_zero)

theorem white_is_not_exact_counterexample:
  "oklch_to_rgb ''oklch(100% 0 0)''
     = Inr (9007199254740991 / 2 ^ 53, 9007199254740991 / 2 ^ 53, 9007199254740991 / 2 ^ 53)
   \<and> (9007199254740991 / 2 ^ 53 :: real) \<noteq> 1"
proof -
  have "fl_div 100 100 = 1" by (simp add: fl_div_def rnd_one)
  then have "oklch_to_rgb ''oklch(100% 0 0)'' = Inr (convert 1 0 0)"
    by (simp add: oklch_to_rgb_def white_match white_split white_floats del: split_ws.simps)
  then show ?thesis by (simp add: convert_white)
qed

subsection \<open>Malformed strings\<close>

lemma ex_match: "match_oklch ''oklch(50% 0.1 180deg)'' = Some ''50% 0.1 180deg''"
  by code_simp
lemma ex_split: "split_ws [] ''50% 0.1 180deg'' = [''50%'', ''0.1'', ''180deg'']"
  by code_simp
lemma ex_strip0:
  "strip_number (rstrip_percent ''50%'') = ''50'' \<and> strip_number ''0.1'' = ''0.1''
   \<and> strip_number ''180deg'' = ''180deg''"
  by code_simp
lemma ex_num: "parse_number ''50'' = Some 50 \<and> parse_number ''0.1'' = Some (1/10) \<and> parse_number ''180deg'' = None"
  by code_simp
lemma ex_lower: "lower ''50'' = ''50'' \<and> lower ''0.1'' = ''0.1'' \<and> lower ''180deg'' = ''180deg''"
  by code_simp
lemma ex_floats:
  "py_float (rstrip_percent ''50%'') = Finite (rnd 50) \<and> py_float ''0.1'' = Finite (rnd (1/10))
   \<and> py_float ''180deg'' = Invalid"
  using ex_strip0 ex_num ex_lower by (simp add: py_float_def)
text \<open>
  C8. A string that has the \<open>oklch(...)\<close> form and three parameters, one of which is not
  a number for \<open>float\<close>, raises \<open>ValueError\<close>: here the hue is written with the CSS
  unit \<open>deg\<close>. The two guarded kinds of malformed string, no match and fewer than
  three parameters, return black.
\<close>

theorem malformed_number_raises:
  "oklch_to_rgb ''oklch(50% 0.1 180deg)'' = Inl ValueError
   \<and> oklch_to_rgb ''rgb(1,2,3)'' = Inr (0, 0, 0)
   \<and> oklch_to_rgb ''oklch(50% 0.1)'' = Inr (0, 0, 0)"
proof -
  have "match_oklch ''oklch(50% 0.1)'' = Some ''50% 0.1''" by code_simp
  moreover have "split_ws [] ''50% 0.1'' = [''50%'', ''0.1'']" by code_simp
  ultimately have "oklch_to_rgb ''oklch(50% 0.1)'' = Inr (0, 0, 0)"
    by (simp add: oklch_to_rgb_def del: split_ws.simps)
  moreover have "oklch_to_rgb ''rgb(1,2,3)'' = Inr (0, 0, 0)"
    by (simp add: oklch_to_rgb_def match_oklch_def startswith_def)
  moreover have "oklch_to_rgb ''oklch(50% 0.1 180deg)'' = Inl ValueError"
    by (simp add: oklch_to_rgb_def ex_match ex_split ex_floats del: split_ws.simps)
  ultimately show ?thesis by simp
qed

end
